theory Spec2Isabelle
  imports Main "HOL-Library.Word"
begin

unbundle bit_operations_syntax

section \<open>NAT example of nff-go: examples/nat/translation.go\<close>

text \<open>
  A shallow embedding of the translation and connection-state engine of
  \<^verbatim>\<open>examples/nat/translation.go\<close>.  Every function of that file is a
  definition of the same name below.  The Go code mutates the port pair, the packet and
  the outside world in place; here each function takes the state and returns the new
  one, together with the packets it transmitted and the warnings it printed.
\<close>

subsection \<open>Machine integers, addresses and times\<close>

type_synonym u8 = "8 word"
type_synonym u16 = "16 word"
type_synonym u32 = "32 word"

text \<open>\<^verbatim>\<open>[common.EtherAddrLen]byte\<close>: six bytes.\<close>

datatype macAddress = MAC u8 u8 u8 u8 u8 u8

text \<open>\<^verbatim>\<open>[common.IPv4AddrLen]byte\<close>: four bytes, as they stand in an ARP header.\<close>

datatype ipv4Array = IPv4Bytes u8 u8 u8 u8

text \<open>
  A \<^verbatim>\<open>time.Time\<close> is a count of nanoseconds, a \<^verbatim>\<open>time.Duration\<close>
  a difference of two.  The zero \<^verbatim>\<open>time.Time{}\<close> is \<open>0\<close>.  One clock reading
  \<open>now\<close> is taken per packet: every \<^verbatim>\<open>time.Now()\<close> and
  \<^verbatim>\<open>time.Since\<close> of one call sees the same instant.
\<close>

type_synonym time = int
type_synonym duration = int

subsection \<open>Constants of package common and of the header codec\<close>

definition ICMPNumber :: u8 where "ICMPNumber = 0x01"
definition TCPNumber :: u8 where "TCPNumber = 0x06"
definition UDPNumber :: u8 where "UDPNumber = 0x11"

definition IPV4Number :: u16 where "IPV4Number = 0x0800"
definition ARPNumber :: u16 where "ARPNumber = 0x0806"

definition TCPFlagFin :: u8 where "TCPFlagFin = 0x01"
definition TCPFlagSyn :: u8 where "TCPFlagSyn = 0x02"
definition TCPFlagRst :: u8 where "TCPFlagRst = 0x04"
definition TCPFlagAck :: u8 where "TCPFlagAck = 0x10"

definition ICMPTypeEchoRequest :: u8 where "ICMPTypeEchoRequest = 8"
definition ICMPTypeEchoResponse :: u8 where "ICMPTypeEchoResponse = 0"

definition ARPRequest :: u16 where "ARPRequest = 1"
definition ARPReply :: u16 where "ARPReply = 2"

text \<open>
  Modelled from the spec: the byte-order helpers of the header codec (section 6) are
  not in translation.go.  \<open>SwapBytesUint16\<close> and \<open>SwapBytesUint32\<close> reverse the
  bytes of their argument; \<open>BytesToIPv4\<close> and \<open>ArrayToIPv4\<close> read four bytes in
  wire order into a word whose lowest byte is the first one, and \<open>IPv4ToBytes\<close>
  writes them back.
\<close>

definition SwapBytesUint16 :: "u16 \<Rightarrow> u16" where
  "SwapBytesUint16 x = (push_bit 8 x) OR (drop_bit 8 x)"

definition SwapBytesUint32 :: "u32 \<Rightarrow> u32" where
  "SwapBytesUint32 x =
     push_bit 24 (x AND 0x000000ff) OR push_bit 8 (x AND 0x0000ff00) OR
     drop_bit 8 (x AND 0x00ff0000) OR drop_bit 24 (x AND 0xff000000)"

definition BytesToIPv4 :: "u8 \<Rightarrow> u8 \<Rightarrow> u8 \<Rightarrow> u8 \<Rightarrow> u32" where
  "BytesToIPv4 a b c d =
     push_bit 24 (ucast d) OR push_bit 16 (ucast c) OR push_bit 8 (ucast b) OR ucast a"

fun ArrayToIPv4 :: "ipv4Array \<Rightarrow> u32" where
  "ArrayToIPv4 (IPv4Bytes a b c d) = BytesToIPv4 a b c d"

definition IPv4ToBytes :: "u32 \<Rightarrow> ipv4Array" where
  "IPv4ToBytes v =
     IPv4Bytes (ucast v) (ucast (drop_bit 8 v)) (ucast (drop_bit 16 v)) (ucast (drop_bit 24 v))"

subsection \<open>Packets\<close>

text \<open>
  A packet as the header codec presents it.  The Go getters cast the bytes after the
  Ethernet header to the header type asked for, so every view exists for every packet;
  which one is meaningful is decided by \<open>EtherType\<close> (the value of
  \<^verbatim>\<open>GetEtherType\<close>, which looks through a VLAN tag) and by \<open>NextProtoID\<close>.
\<close>

record EtherHdr =
  DAddr :: macAddress
  SAddr :: macAddress

record VLANHdr =
  TCI :: u16

record IPv4Hdr =
  NextProtoID :: u8
  SrcAddr :: u32
  DstAddr :: u32

record ARPHdr =
  Operation :: u16
  SHA :: macAddress
  SPA :: ipv4Array
  THA :: macAddress
  TPA :: ipv4Array

record TCPHdr =
  SrcPort :: u16
  DstPort :: u16
  TCPFlags :: u8

record UDPHdr =
  udpSrcPort :: u16
  udpDstPort :: u16

record ICMPHdr =
  Type :: u8
  Code :: u8
  Identifier :: u16

text \<open>
  Modelled from the spec: the checksum service (section 6) is not in translation.go; the
  engine only signals that a recomputation is needed.  The packet remembers which
  recomputation was asked for last.
\<close>

datatype cksum = NotRecomputed | RecomputedTCP | RecomputedUDP | RecomputedICMP

record Packet =
  Ether :: EtherHdr
  EtherType :: u16
  VLAN :: "VLANHdr option"
  IPv4 :: IPv4Hdr
  ARP :: ARPHdr
  TCP :: TCPHdr
  UDP :: UDPHdr
  ICMP :: ICMPHdr
  Checksum :: cksum

definition zeroMAC :: macAddress where
  "zeroMAC = MAC 0 0 0 0 0 0"

text \<open>The packet \<^verbatim>\<open>packet.NewPacket\<close> hands out: nothing set yet.\<close>

definition NewPacket :: Packet where
  "NewPacket =
     \<lparr>Ether = \<lparr>DAddr = zeroMAC, SAddr = zeroMAC\<rparr>, EtherType = 0, VLAN = None,
      IPv4 = \<lparr>NextProtoID = 0, SrcAddr = 0, DstAddr = 0\<rparr>,
      ARP = \<lparr>Operation = 0, SHA = zeroMAC, SPA = IPv4Bytes 0 0 0 0, THA = zeroMAC,
             TPA = IPv4Bytes 0 0 0 0\<rparr>,
      TCP = \<lparr>SrcPort = 0, DstPort = 0, TCPFlags = 0\<rparr>,
      UDP = \<lparr>udpSrcPort = 0, udpDstPort = 0\<rparr>,
      ICMP = \<lparr>Type = 0, Code = 0, Identifier = 0\<rparr>,
      Checksum = NotRecomputed\<rparr>"

definition GetIPv4CheckVLAN :: "Packet \<Rightarrow> IPv4Hdr option" where
  "GetIPv4CheckVLAN pkt = (if EtherType pkt = IPV4Number then Some (IPv4 pkt) else None)"

definition GetARPCheckVLAN :: "Packet \<Rightarrow> ARPHdr option" where
  "GetARPCheckVLAN pkt = (if EtherType pkt = ARPNumber then Some (ARP pkt) else None)"

definition ParseAllKnownL4ForIPv4 ::
  "Packet \<Rightarrow> TCPHdr option \<times> UDPHdr option \<times> ICMPHdr option" where
  "ParseAllKnownL4ForIPv4 pkt =
     (if NextProtoID (IPv4 pkt) = TCPNumber then (Some (TCP pkt), None, None)
      else if NextProtoID (IPv4 pkt) = UDPNumber then (None, Some (UDP pkt), None)
      else if NextProtoID (IPv4 pkt) = ICMPNumber then (None, None, Some (ICMP pkt))
      else (None, None, None))"

subsection \<open>State of a port pair\<close>

text \<open>\<^verbatim>\<open>Tuple\<close> is a pair of address and port.\<close>

record Tuple =
  addr :: u32
  port :: u16

text \<open>
  The declarations of \<^verbatim>\<open>terminationDirection\<close>, \<^verbatim>\<open>portMapEntry\<close>,
  \<^verbatim>\<open>ipv4Port\<close> and \<^verbatim>\<open>portPair\<close> are not in translation.go; the
  records hold the fields translation.go reads and writes.  Modelled from the spec
  (section 9): a direction is a small integer whose bitwise complement is the opposite
  direction.
\<close>

type_synonym terminationDirection = u8

definition pri2pub :: terminationDirection where "pri2pub = 0x0f"
definition pub2pri :: terminationDirection where "pub2pri = 0xf0"

text \<open>The field \<open>pmeAddr\<close> is \<^verbatim>\<open>addr\<close> in the source.\<close>

record portMapEntry =
  lastused :: time
  pmeAddr :: u32
  finCount :: u8
  terminationDirection :: terminationDirection
  static :: bool

text \<open>The zero value \<^verbatim>\<open>portMapEntry{}\<close>.\<close>

definition zeroPortMapEntry :: portMapEntry where
  "zeroPortMapEntry =
     \<lparr>lastused = 0, pmeAddr = 0, finCount = 0, terminationDirection = 0, static = False\<rparr>"

record ipv4Subnet =
  Addr :: u32
  Mask :: u32

text \<open>
  \<open>portmap\<close> is indexed by protocol and port number, \<open>translationTable\<close> by
  protocol; a \<^verbatim>\<open>sync.Map\<close> is a partial map.  The back reference
  \<^verbatim>\<open>opposite\<close> is the other port of the pair; the functions below take the pair
  and say which side they work on.
\<close>

record ipv4Port =
  Index :: u16
  Subnet :: ipv4Subnet
  SrcMACAddress :: macAddress
  Vlan :: u16
  KNIName :: string
  portmap :: "u8 \<Rightarrow> nat \<Rightarrow> portMapEntry"
  translationTable :: "u8 \<Rightarrow> (Tuple \<rightharpoonup> Tuple)"
  arpTable :: "u32 \<rightharpoonup> macAddress"

text \<open>
  The mutex of a \<^verbatim>\<open>portPair\<close> is not a field of the record: the calls are
  modelled one at a time, each running to its end, so the mutex is free whenever a call
  starts.  \<^verbatim>\<open>allocateNewEgressConnection\<close> holds it for its whole body and
  \<^verbatim>\<open>checkTCPTermination\<close> for the whole of each of its three branches; there
  \<^verbatim>\<open>Lock\<close> and \<^verbatim>\<open>Unlock\<close> are left out.  Where
  \<^verbatim>\<open>PublicToPrivateTranslation\<close> takes the mutex itself, around the eviction
  of a stale connection, its state is passed along (\<open>evictStale\<close> below).  The
  translation functions take the port pair itself, the element
  \<^verbatim>\<open>Natconfig.PortPairs[pi.index]\<close> that the source selects.
\<close>

record portPair =
  PublicPort :: ipv4Port
  PrivatePort :: ipv4Port

text \<open>
  The constants \<^verbatim>\<open>connectionTimeout\<close> and \<^verbatim>\<open>portReuseTimeout\<close> and
  the range of ports the allocator hands out are declared outside translation.go; they
  are parameters here.
\<close>

record natParams =
  connectionTimeout :: duration
  portReuseTimeout :: duration
  portStart :: nat
  portEnd :: nat

text \<open>The dispositions a translation function returns.\<close>

datatype dir = dirDROP | dirSEND | dirKNI

datatype error = PoolExhausted

datatype warning = FailedToAllocate error | ARPTargetMismatch | ARPNonZeroMAC

text \<open>
  What a call does to the outside world: \<^verbatim>\<open>SendPacket\<close> of a generated packet
  on a port index, and the warnings it prints.  \<^verbatim>\<open>dumpPacket\<close> (a debugging
  trace declared outside translation.go) is left out.
\<close>

datatype event = SendPacket Packet u16 | Warning warning

subsection \<open>Connection table\<close>

definition setPortmap :: "ipv4Port \<Rightarrow> u8 \<Rightarrow> nat \<Rightarrow> portMapEntry \<Rightarrow> ipv4Port" where
  "setPortmap prt protocol p e =
     prt\<lparr>portmap := (portmap prt)(protocol := (portmap prt protocol)(p := e))\<rparr>"

definition Store :: "ipv4Port \<Rightarrow> u8 \<Rightarrow> Tuple \<Rightarrow> Tuple \<Rightarrow> ipv4Port" where
  "Store prt protocol k v =
     prt\<lparr>translationTable :=
           (translationTable prt)(protocol := (translationTable prt protocol)(k \<mapsto> v))\<rparr>"

definition Delete :: "ipv4Port \<Rightarrow> u8 \<Rightarrow> Tuple \<Rightarrow> ipv4Port" where
  "Delete prt protocol k =
     prt\<lparr>translationTable :=
           (translationTable prt)(protocol := (translationTable prt protocol)(k := None))\<rparr>"

text \<open>
  Modelled from the spec: \<^verbatim>\<open>deleteOldConnection\<close> is not in translation.go.
  Section 4.2: remove(protocol, public port) deletes both the public-to-private and
  the private-to-public entry associated with that port, and frees the PortState slot.
  The public entry of a port is the one keyed by the slot's owner address and the port.
\<close>

definition deleteOldConnection :: "portPair \<Rightarrow> u8 \<Rightarrow> nat \<Rightarrow> portPair" where
  "deleteOldConnection pp protocol p =
     (let pub2priKey = \<lparr>addr = pmeAddr (portmap (PublicPort pp) protocol p), port = of_nat p\<rparr>
      in (case translationTable (PublicPort pp) protocol pub2priKey of
            None \<Rightarrow> pp\<lparr>PublicPort := setPortmap (PublicPort pp) protocol p zeroPortMapEntry\<rparr>
          | Some pri2pubKey \<Rightarrow>
              pp\<lparr>PrivatePort := Delete (PrivatePort pp) protocol pri2pubKey,
                 PublicPort := setPortmap (Delete (PublicPort pp) protocol pub2priKey)
                                 protocol p zeroPortMapEntry\<rparr>))"

text \<open>
  A \<^verbatim>\<open>sync.Mutex\<close> is locked or not.  \<^verbatim>\<open>Lock\<close> of a locked mutex
  waits until another goroutine unlocks it; with one call at a time there is none, and
  the call never returns.  \<^verbatim>\<open>Unlock\<close> of a mutex that is not locked is a fatal
  error.  Both are the result \<open>None\<close>.
\<close>

datatype mutex = Unlocked | Locked

definition mutexLock :: "mutex \<Rightarrow> mutex option" where
  "mutexLock m = (case m of Unlocked \<Rightarrow> Some Locked | Locked \<Rightarrow> None)"

definition mutexUnlock :: "mutex \<Rightarrow> mutex option" where
  "mutexUnlock m = (case m of Locked \<Rightarrow> Some Unlocked | Unlocked \<Rightarrow> None)"

text \<open>
  Modelled from the spec: section 4.2, the caller of remove holds the write lock.
  \<open>deleteOldConnectionLocked\<close> is \<open>deleteOldConnection\<close> called with the state of
  the mutex: a call without the lock is outside the contract and has no result.
\<close>

definition deleteOldConnectionLocked :: "mutex \<Rightarrow> portPair \<Rightarrow> u8 \<Rightarrow> nat \<Rightarrow> portPair option" where
  "deleteOldConnectionLocked m pp protocol p =
     (case m of Locked \<Rightarrow> Some (deleteOldConnection pp protocol p) | Unlocked \<Rightarrow> None)"

text \<open>
  Modelled from the spec: \<^verbatim>\<open>allocNewPort\<close> is not in translation.go.  Section
  4.1: allocate(protocol) selects the lowest-numbered free port in the configured range
  for that protocol, or fails with PoolExhausted.  A port is free when its slot is not
  static and has not been used for longer than the connection timeout (sections 4.2
  and 4.7).
\<close>

definition portFree :: "natParams \<Rightarrow> time \<Rightarrow> portMapEntry \<Rightarrow> bool" where
  "portFree cfg now e \<longleftrightarrow> \<not> static e \<and> now - lastused e > connectionTimeout cfg"

definition allocNewPort :: "natParams \<Rightarrow> time \<Rightarrow> portPair \<Rightarrow> u8 \<Rightarrow> error + nat" where
  "allocNewPort cfg now pp protocol =
     (case find (\<lambda>p. portFree cfg now (portmap (PublicPort pp) protocol p))
             [portStart cfg ..< portEnd cfg] of
        None \<Rightarrow> Inl PoolExhausted
      | Some p \<Rightarrow> Inr p)"

definition allocateNewEgressConnection ::
  "natParams \<Rightarrow> time \<Rightarrow> portPair \<Rightarrow> u8 \<Rightarrow> Tuple \<Rightarrow> error + (Tuple \<times> portPair)" where
  "allocateNewEgressConnection cfg now pp protocol privEntry =
     (case allocNewPort cfg now pp protocol of
        Inl err \<Rightarrow> Inl err
      | Inr p \<Rightarrow>
          (let publicAddr = Addr (Subnet (PublicPort pp));
               pubEntry = \<lparr>addr = publicAddr, port = of_nat p\<rparr>;
               pub1 = setPortmap (PublicPort pp) protocol p
                        \<lparr>lastused = now, pmeAddr = publicAddr, finCount = 0,
                         terminationDirection = 0, static = False\<rparr>;
               pub2 = Store pub1 protocol pubEntry privEntry;
               pri2 = Store (PrivatePort pp) protocol privEntry pubEntry
           in Inr (pubEntry, pp\<lparr>PublicPort := pub2, PrivatePort := pri2\<rparr>)))"

text \<open>
  The assignment \<^verbatim>\<open>portmap[protocol][p].lastused = time.Now()\<close>, which both
  translation functions make on the public port.
\<close>

definition refreshLastused :: "portPair \<Rightarrow> u8 \<Rightarrow> nat \<Rightarrow> time \<Rightarrow> portPair" where
  "refreshLastused pp protocol p now =
     pp\<lparr>PublicPort := setPortmap (PublicPort pp) protocol p
                           ((portmap (PublicPort pp) protocol p)\<lparr>lastused := now\<rparr>)\<rparr>"

subsection \<open>TCP termination tracking\<close>

text \<open>Simple check for FIN or RST in TCP.\<close>

definition checkTCPTermination ::
  "natParams \<Rightarrow> time \<Rightarrow> portPair \<Rightarrow> TCPHdr \<Rightarrow> nat \<Rightarrow> terminationDirection \<Rightarrow> portPair" where
  "checkTCPTermination cfg now pp hdr p d =
     (if TCPFlags hdr AND TCPFlagFin \<noteq> 0 then
        (let pme = portmap (PublicPort pp) TCPNumber p in
         if finCount pme = 0 then
           pp\<lparr>PublicPort := setPortmap (PublicPort pp) TCPNumber p
                               (pme\<lparr>finCount := 1, terminationDirection := d\<rparr>)\<rparr>
         else if finCount pme = 1 \<and> terminationDirection pme = NOT d then
           pp\<lparr>PublicPort := setPortmap (PublicPort pp) TCPNumber p (pme\<lparr>finCount := 2\<rparr>)\<rparr>
         else pp)
      else if TCPFlags hdr AND TCPFlagRst \<noteq> 0 then
        deleteOldConnection pp TCPNumber p
      else if TCPFlags hdr AND TCPFlagAck \<noteq> 0 then
        (if finCount (portmap (PublicPort pp) TCPNumber p) = 2 then
           (let pp1 = deleteOldConnection pp TCPNumber p;
                pme = portmap (PublicPort pp1) TCPNumber p
            in pp1\<lparr>PublicPort := setPortmap (PublicPort pp1) TCPNumber p
                      (pme\<lparr>lastused := now + (portReuseTimeout cfg - connectionTimeout cfg)\<rparr>)\<rparr>)
         else pp)
      else pp)"

subsection \<open>Generated packets\<close>

text \<open>
  Modelled from the spec: the packet constructors and mutators of the header codec
  (section 6) and \<^verbatim>\<open>swapAddrIPv4\<close> are not in translation.go.  An ARP reply
  or request carries the hardware and protocol addresses it is given (a request is
  broadcast, with a blank target hardware address); \<open>AddVLANTag\<close> tags a packet;
  \<open>SetVLANTagIdentifier\<close> replaces the twelve identifier bits of a tag;
  \<open>swapAddrIPv4\<close> swaps source and destination addressing (section 4.6); the
  checksum setters ask for the recomputation of their protocol's checksum.
\<close>

definition InitARPReplyPacket ::
  "Packet \<Rightarrow> macAddress \<Rightarrow> macAddress \<Rightarrow> u32 \<Rightarrow> u32 \<Rightarrow> Packet" where
  "InitARPReplyPacket pkt sha tha spa tpa =
     pkt\<lparr>Ether := \<lparr>DAddr = tha, SAddr = sha\<rparr>, EtherType := ARPNumber,
         ARP := \<lparr>Operation = SwapBytesUint16 ARPReply, SHA = sha, SPA = IPv4ToBytes spa,
                 THA = tha, TPA = IPv4ToBytes tpa\<rparr>\<rparr>"

definition InitARPRequestPacket :: "Packet \<Rightarrow> macAddress \<Rightarrow> u32 \<Rightarrow> u32 \<Rightarrow> Packet" where
  "InitARPRequestPacket pkt sha spa tpa =
     pkt\<lparr>Ether := \<lparr>DAddr = MAC 0xff 0xff 0xff 0xff 0xff 0xff, SAddr = sha\<rparr>,
         EtherType := ARPNumber,
         ARP := \<lparr>Operation = SwapBytesUint16 ARPRequest, SHA = sha, SPA = IPv4ToBytes spa,
                 THA = zeroMAC, TPA = IPv4ToBytes tpa\<rparr>\<rparr>"

definition AddVLANTag :: "Packet \<Rightarrow> u16 \<Rightarrow> Packet" where
  "AddVLANTag pkt tag = pkt\<lparr>VLAN := Some \<lparr>TCI = SwapBytesUint16 tag\<rparr>\<rparr>"

definition SetVLANTagIdentifier :: "VLANHdr \<Rightarrow> u16 \<Rightarrow> VLANHdr" where
  "SetVLANTagIdentifier hdr tag =
     hdr\<lparr>TCI := SwapBytesUint16 ((SwapBytesUint16 (TCI hdr) AND 0xf000) OR (tag AND 0x0fff))\<rparr>"

definition swapAddrIPv4 :: "Packet \<Rightarrow> Packet" where
  "swapAddrIPv4 pkt =
     pkt\<lparr>Ether := \<lparr>DAddr = SAddr (Ether pkt), SAddr = DAddr (Ether pkt)\<rparr>,
         IPv4 := (IPv4 pkt)\<lparr>SrcAddr := DstAddr (IPv4 pkt), DstAddr := SrcAddr (IPv4 pkt)\<rparr>\<rparr>"

definition setIPv4TCPChecksum :: "Packet \<Rightarrow> Packet" where
  "setIPv4TCPChecksum pkt = pkt\<lparr>Checksum := RecomputedTCP\<rparr>"

definition setIPv4UDPChecksum :: "Packet \<Rightarrow> Packet" where
  "setIPv4UDPChecksum pkt = pkt\<lparr>Checksum := RecomputedUDP\<rparr>"

definition setIPv4ICMPChecksum :: "Packet \<Rightarrow> Packet" where
  "setIPv4ICMPChecksum pkt = pkt\<lparr>Checksum := RecomputedICMP\<rparr>"

subsection \<open>ARP\<close>

text \<open>
  \<open>buf\<close> says whether \<^verbatim>\<open>packet.NewPacket\<close> can hand out a packet buffer in
  this call.  When it cannot, the source calls \<^verbatim>\<open>common.LogFatal\<close>, which ends
  the process: the result \<open>None\<close>.
\<close>

definition handleARP :: "bool \<Rightarrow> ipv4Port \<Rightarrow> Packet \<Rightarrow> (dir \<times> ipv4Port \<times> event list) option" where
  "handleARP buf prt pkt =
     (let arp = ARP pkt in
      if SwapBytesUint16 (Operation arp) \<noteq> ARPRequest then
        (let prt1 = (if SwapBytesUint16 (Operation arp) = ARPReply
                     then prt\<lparr>arpTable := (arpTable prt)
                                  (SwapBytesUint32 (ArrayToIPv4 (SPA arp)) \<mapsto> SHA arp)\<rparr>
                     else prt)
         in if KNIName prt \<noteq> [] then Some (dirKNI, prt1, []) else Some (dirDROP, prt1, []))
      else if KNIName prt \<noteq> [] then Some (dirKNI, prt, [])
      else if (case TPA arp of IPv4Bytes a b c d \<Rightarrow> BytesToIPv4 a b c d) \<noteq>
              SwapBytesUint32 (Addr (Subnet prt)) then
        Some (dirDROP, prt, [Warning ARPTargetMismatch])
      else if THA arp \<noteq> zeroMAC then
        Some (dirDROP, prt, [Warning ARPNonZeroMAC])
      else if \<not> buf then None
      else
        (let answer0 = InitARPReplyPacket NewPacket (SrcMACAddress prt) (SHA arp)
                         (ArrayToIPv4 (TPA arp)) (ArrayToIPv4 (SPA arp));
             answerPacket = (case VLAN pkt of
                               None \<Rightarrow> answer0
                             | Some vlan \<Rightarrow> AddVLANTag answer0 (SwapBytesUint16 (TCI vlan)))
         in Some (dirDROP, prt, [SendPacket answerPacket (Index prt)])))"

definition sendARPRequest :: "bool \<Rightarrow> ipv4Port \<Rightarrow> u32 \<Rightarrow> event list option" where
  "sendARPRequest buf prt ip =
     (if \<not> buf then None
      else
        (let request0 = InitARPRequestPacket NewPacket (SrcMACAddress prt)
                          (SwapBytesUint32 (Addr (Subnet prt))) (SwapBytesUint32 ip);
             requestPacket = (if Vlan prt \<noteq> 0 then AddVLANTag request0 (Vlan prt) else request0)
         in Some [SendPacket requestPacket (Index prt)]))"

definition getMACForIP :: "bool \<Rightarrow> ipv4Port \<Rightarrow> u32 \<Rightarrow> (macAddress option \<times> event list) option" where
  "getMACForIP buf prt ip =
     (case arpTable prt ip of
        Some v \<Rightarrow> Some (Some v, [])
      | None \<Rightarrow> (case sendARPRequest buf prt ip of
                   None \<Rightarrow> None
                 | Some ev \<Rightarrow> Some (None, ev)))"

definition parsePacketAndCheckARP ::
  "bool \<Rightarrow> ipv4Port \<Rightarrow> Packet \<Rightarrow>
   (dir \<times> VLANHdr option \<times> IPv4Hdr option \<times> ipv4Port \<times> event list) option" where
  "parsePacketAndCheckARP buf prt pkt =
     (let pktVLAN = VLAN pkt in
      case GetIPv4CheckVLAN pkt of
        None \<Rightarrow>
          (case GetARPCheckVLAN pkt of
             Some arp \<Rightarrow>
               (case handleARP buf prt pkt of
                  None \<Rightarrow> None
                | Some (d, prt1, ev) \<Rightarrow> Some (d, pktVLAN, None, prt1, ev))
           | None \<Rightarrow> Some (dirDROP, pktVLAN, None, prt, []))
      | Some pktIPv4 \<Rightarrow> Some (dirSEND, pktVLAN, Some pktIPv4, prt, []))"

subsection \<open>ICMP\<close>

definition handleICMP ::
  "natParams \<Rightarrow> time \<Rightarrow> bool \<Rightarrow> ipv4Port \<Rightarrow> Packet \<Rightarrow> Tuple option \<Rightarrow> (dir \<times> event list) option" where
  "handleICMP cfg now buf prt pkt key =
     (let ipv4 = IPv4 pkt in
      if SwapBytesUint32 (DstAddr ipv4) \<noteq> Addr (Subnet prt) then Some (dirSEND, [])
      else
        (let icmp = ICMP pkt in
         if KNIName prt \<noteq> [] \<and>
            (case key of
               None \<Rightarrow> False
             | Some k \<Rightarrow>
                 translationTable prt ICMPNumber k = None \<or>
                 now - lastused (portmap prt ICMPNumber (unat (port k))) > connectionTimeout cfg)
         then Some (dirKNI, [])
         else if Type icmp \<noteq> ICMPTypeEchoRequest \<or> Code icmp \<noteq> 0 then Some (dirSEND, [])
         else if \<not> buf then None
         else
           (let answer0 = swapAddrIPv4 pkt;
                answer1 = answer0\<lparr>ICMP := (ICMP answer0)\<lparr>Type := ICMPTypeEchoResponse\<rparr>\<rparr>;
                answerPacket = setIPv4ICMPChecksum answer1
            in Some (dirDROP, [SendPacket answerPacket (Index prt)]))))"

subsection \<open>Lookup keys and port rewriting\<close>

text \<open>
  The pointers \<^verbatim>\<open>pktTCP\<close>, \<^verbatim>\<open>pktUDP\<close> and \<^verbatim>\<open>pktICMP\<close> are
  options: \<open>None\<close> is nil, and a pointer that is not nil points at the view of the
  packet of that name.
\<close>

text \<open>Used to generate key in public to private translation.\<close>

definition generateLookupKeyFromDstAndHandleICMP ::
  "natParams \<Rightarrow> time \<Rightarrow> bool \<Rightarrow> ipv4Port \<Rightarrow> Packet \<Rightarrow> IPv4Hdr \<Rightarrow>
   TCPHdr option \<Rightarrow> UDPHdr option \<Rightarrow> ICMPHdr option \<Rightarrow>
   (Tuple option \<times> dir \<times> event list) option" where
  "generateLookupKeyFromDstAndHandleICMP cfg now buf prt pkt pktIPv4 pktTCP pktUDP pktICMP =
     (let key = \<lparr>addr = SwapBytesUint32 (DstAddr pktIPv4), port = 0\<rparr> in
      case pktTCP of
        Some tcp \<Rightarrow> Some (Some (key\<lparr>port := SwapBytesUint16 (DstPort tcp)\<rparr>), dirSEND, [])
      | None \<Rightarrow>
          (case pktUDP of
             Some udp \<Rightarrow> Some (Some (key\<lparr>port := SwapBytesUint16 (udpDstPort udp)\<rparr>), dirSEND, [])
           | None \<Rightarrow>
               (case pktICMP of
                  Some icmp \<Rightarrow>
                    (let key1 = key\<lparr>port := SwapBytesUint16 (Identifier icmp)\<rparr> in
                     case handleICMP cfg now buf prt pkt (Some key1) of
                       None \<Rightarrow> None
                     | Some (d, ev) \<Rightarrow>
                         if d \<noteq> dirSEND then Some (None, d, ev)
                         else Some (Some key1, dirSEND, ev))
                | None \<Rightarrow> Some (None, dirDROP, []))))"

text \<open>Used to generate key in private to public translation.\<close>

definition generateLookupKeyFromSrcAndHandleICMP ::
  "natParams \<Rightarrow> time \<Rightarrow> bool \<Rightarrow> ipv4Port \<Rightarrow> Packet \<Rightarrow> IPv4Hdr \<Rightarrow>
   TCPHdr option \<Rightarrow> UDPHdr option \<Rightarrow> ICMPHdr option \<Rightarrow>
   (Tuple option \<times> dir \<times> event list) option" where
  "generateLookupKeyFromSrcAndHandleICMP cfg now buf prt pkt pktIPv4 pktTCP pktUDP pktICMP =
     (let key = \<lparr>addr = SwapBytesUint32 (SrcAddr pktIPv4), port = 0\<rparr> in
      case pktTCP of
        Some tcp \<Rightarrow> Some (Some (key\<lparr>port := SwapBytesUint16 (SrcPort tcp)\<rparr>), dirSEND, [])
      | None \<Rightarrow>
          (case pktUDP of
             Some udp \<Rightarrow> Some (Some (key\<lparr>port := SwapBytesUint16 (udpSrcPort udp)\<rparr>), dirSEND, [])
           | None \<Rightarrow>
               (case pktICMP of
                  Some icmp \<Rightarrow>
                    (case handleICMP cfg now buf prt pkt None of
                       None \<Rightarrow> None
                     | Some (d, ev) \<Rightarrow>
                         if d \<noteq> dirSEND then Some (None, d, ev)
                         else Some (Some (key\<lparr>port := SwapBytesUint16 (Identifier icmp)\<rparr>),
                                    dirSEND, ev))
                | None \<Rightarrow> Some (None, dirDROP, []))))"

definition setPacketDstPort ::
  "Packet \<Rightarrow> u16 \<Rightarrow> TCPHdr option \<Rightarrow> UDPHdr option \<Rightarrow> ICMPHdr option \<Rightarrow> Packet" where
  "setPacketDstPort pkt p pktTCP pktUDP pktICMP =
     (if pktTCP \<noteq> None then
        setIPv4TCPChecksum (pkt\<lparr>TCP := (TCP pkt)\<lparr>DstPort := SwapBytesUint16 p\<rparr>\<rparr>)
      else if pktUDP \<noteq> None then
        setIPv4UDPChecksum (pkt\<lparr>UDP := (UDP pkt)\<lparr>udpDstPort := SwapBytesUint16 p\<rparr>\<rparr>)
      else
        setIPv4ICMPChecksum (pkt\<lparr>ICMP := (ICMP pkt)\<lparr>Identifier := SwapBytesUint16 p\<rparr>\<rparr>))"

definition setPacketSrcPort ::
  "Packet \<Rightarrow> u16 \<Rightarrow> TCPHdr option \<Rightarrow> UDPHdr option \<Rightarrow> ICMPHdr option \<Rightarrow> Packet" where
  "setPacketSrcPort pkt p pktTCP pktUDP pktICMP =
     (if pktTCP \<noteq> None then
        setIPv4TCPChecksum (pkt\<lparr>TCP := (TCP pkt)\<lparr>SrcPort := SwapBytesUint16 p\<rparr>\<rparr>)
      else if pktUDP \<noteq> None then
        setIPv4UDPChecksum (pkt\<lparr>UDP := (UDP pkt)\<lparr>udpSrcPort := SwapBytesUint16 p\<rparr>\<rparr>)
      else
        setIPv4ICMPChecksum (pkt\<lparr>ICMP := (ICMP pkt)\<lparr>Identifier := SwapBytesUint16 p\<rparr>\<rparr>))"

subsection \<open>Translation\<close>

text \<open>
  What a translation function leaves behind: the disposition it returns, the packet as
  it stands after the call, the port pair, and what the call sent and printed.
\<close>

record outcome =
  disposition :: dir
  packet :: Packet
  pair :: portPair
  emitted :: "event list"

text \<open>
  The packet rewriting of the ingress direction: lines 99 to 124 of translation.go, the
  part of \<^verbatim>\<open>PublicToPrivateTranslation\<close> after the aging check.  The result
  \<open>None\<close> is the end of the process: \<^verbatim>\<open>LogFatal\<close> when no packet buffer is
  to be had for an ARP request, or the nil dereference of \<^verbatim>\<open>pktTCP\<close> (which
  \<open>ParseAllKnownL4ForIPv4\<close> excludes when the protocol is TCP).
\<close>

definition pub2priRewrite ::
  "natParams \<Rightarrow> time \<Rightarrow> bool \<Rightarrow> portPair \<Rightarrow> Packet \<Rightarrow> VLANHdr option \<Rightarrow>
   TCPHdr option \<Rightarrow> UDPHdr option \<Rightarrow> ICMPHdr option \<Rightarrow> u8 \<Rightarrow> Tuple \<Rightarrow> Tuple \<Rightarrow> event list \<Rightarrow>
   outcome option" where
  "pub2priRewrite cfg now buf pp pkt pktVLAN pktTCP pktUDP pktICMP protocol pub2priKey val ev =
     (if addr val \<noteq> 0 then
        (case (if protocol = TCPNumber
               then (case pktTCP of
                       None \<Rightarrow> None
                     | Some tcp \<Rightarrow>
                         Some (checkTCPTermination cfg now pp tcp (unat (port pub2priKey)) pub2pri))
               else Some pp) of
           None \<Rightarrow> None
         | Some pp1 \<Rightarrow>
             (case getMACForIP buf (PrivatePort pp1) (addr val) of
                None \<Rightarrow> None
              | Some (None, ev1) \<Rightarrow>
                  Some \<lparr>disposition = dirDROP, packet = pkt, pair = pp1, emitted = ev @ ev1\<rparr>
              | Some (Some mac, ev1) \<Rightarrow>
                  (let pkt1 = pkt\<lparr>Ether := \<lparr>DAddr = mac,
                                            SAddr = SrcMACAddress (PublicPort pp1)\<rparr>\<rparr>;
                       pkt2 = (case pktVLAN of
                                 None \<Rightarrow> pkt1
                               | Some vlan \<Rightarrow>
                                   pkt1\<lparr>VLAN := Some (SetVLANTagIdentifier vlan
                                                         (Vlan (PrivatePort pp1)))\<rparr>);
                       pkt3 = pkt2\<lparr>IPv4 := (IPv4 pkt2)\<lparr>DstAddr := SwapBytesUint32 (addr val)\<rparr>\<rparr>;
                       pkt4 = setPacketDstPort pkt3 (port val) pktTCP pktUDP pktICMP
                   in Some \<lparr>disposition = dirSEND, packet = pkt4, pair = pp1,
                            emitted = ev @ ev1\<rparr>)))
      else Some \<lparr>disposition = dirKNI, packet = pkt, pair = pp, emitted = ev\<rparr>)"

text \<open>
  The eviction of a connection that is too old: lines 92 to 94 of translation.go,
  \<^verbatim>\<open>pp.mutex.Lock()\<close>, \<^verbatim>\<open>pp.deleteOldConnection(protocol, port)\<close>,
  \<^verbatim>\<open>pp.mutex.Unlock()\<close>, from the state \<open>m\<close> of the mutex.
\<close>

definition evictStale :: "mutex \<Rightarrow> portPair \<Rightarrow> u8 \<Rightarrow> nat \<Rightarrow> (mutex \<times> portPair) option" where
  "evictStale m pp protocol p =
     (case mutexLock m of
        None \<Rightarrow> None
      | Some m1 \<Rightarrow>
          (case deleteOldConnectionLocked m1 pp protocol p of
             None \<Rightarrow> None
           | Some pp1 \<Rightarrow>
               (case mutexUnlock m1 of
                  None \<Rightarrow> None
                | Some m2 \<Rightarrow> Some (m2, pp1))))"

text \<open>
  \<open>PublicToPrivateTranslation\<close> does ingress translation.  The mutex is free when the
  call starts.
\<close>

definition PublicToPrivateTranslation ::
  "natParams \<Rightarrow> time \<Rightarrow> bool \<Rightarrow> portPair \<Rightarrow> Packet \<Rightarrow> outcome option" where
  "PublicToPrivateTranslation cfg now buf pp pkt =
     (case parsePacketAndCheckARP buf (PublicPort pp) pkt of
        None \<Rightarrow> None
      | Some (d, pktVLAN, None, prt1, ev) \<Rightarrow>
          Some \<lparr>disposition = d, packet = pkt, pair = pp\<lparr>PublicPort := prt1\<rparr>, emitted = ev\<rparr>
      | Some (d, pktVLAN, Some pktIPv4, prt1, ev) \<Rightarrow>
          (let pp0 = pp\<lparr>PublicPort := prt1\<rparr>;
               (pktTCP, pktUDP, pktICMP) = ParseAllKnownL4ForIPv4 pkt;
               protocol = NextProtoID pktIPv4
           in case generateLookupKeyFromDstAndHandleICMP cfg now buf (PublicPort pp0) pkt
                     pktIPv4 pktTCP pktUDP pktICMP of
                None \<Rightarrow> None
              | Some (None, d1, ev1) \<Rightarrow>
                  Some \<lparr>disposition = d1, packet = pkt, pair = pp0, emitted = ev @ ev1\<rparr>
              | Some (Some pub2priKey, d1, ev1) \<Rightarrow>
                  (case translationTable (PublicPort pp0) protocol pub2priKey of
                     None \<Rightarrow>
                       Some \<lparr>disposition = dirDROP, packet = pkt, pair = pp0,
                             emitted = ev @ ev1\<rparr>
                   | Some val \<Rightarrow>
                       (let pme = portmap (PublicPort pp0) protocol (unat (port pub2priKey)) in
                        if static pme \<or> now - lastused pme \<le> connectionTimeout cfg then
                          pub2priRewrite cfg now buf
                            (refreshLastused pp0 protocol (unat (port pub2priKey)) now)
                            pkt pktVLAN pktTCP pktUDP pktICMP protocol pub2priKey val (ev @ ev1)
                        else
                          (case evictStale Unlocked pp0 protocol (unat (port pub2priKey)) of
                             None \<Rightarrow> None
                           | Some (m, pp1) \<Rightarrow>
                               Some \<lparr>disposition = dirDROP, packet = pkt, pair = pp1,
                                     emitted = ev @ ev1\<rparr>)))))"

text \<open>
  The packet rewriting of the egress direction: lines 176 to 201 of translation.go, the
  part of \<^verbatim>\<open>PrivateToPublicTranslation\<close> after the lookup.
\<close>

definition pri2pubRewrite ::
  "natParams \<Rightarrow> time \<Rightarrow> bool \<Rightarrow> portPair \<Rightarrow> Packet \<Rightarrow> VLANHdr option \<Rightarrow> IPv4Hdr \<Rightarrow>
   TCPHdr option \<Rightarrow> UDPHdr option \<Rightarrow> ICMPHdr option \<Rightarrow> Tuple \<Rightarrow> event list \<Rightarrow>
   outcome option" where
  "pri2pubRewrite cfg now buf pp pkt pktVLAN pktIPv4 pktTCP pktUDP pktICMP val ev =
     (if addr val \<noteq> 0 then
        (let pp1 = (case pktTCP of
                      None \<Rightarrow> pp
                    | Some tcp \<Rightarrow> checkTCPTermination cfg now pp tcp (unat (port val)) pri2pub)
         in case getMACForIP buf (PublicPort pp1) (SwapBytesUint32 (DstAddr pktIPv4)) of
              None \<Rightarrow> None
            | Some (None, ev1) \<Rightarrow>
                Some \<lparr>disposition = dirDROP, packet = pkt, pair = pp1, emitted = ev @ ev1\<rparr>
            | Some (Some mac, ev1) \<Rightarrow>
                (let pkt1 = pkt\<lparr>Ether := \<lparr>DAddr = mac,
                                          SAddr = SrcMACAddress (PrivatePort pp1)\<rparr>\<rparr>;
                     pkt2 = (case pktVLAN of
                               None \<Rightarrow> pkt1
                             | Some vlan \<Rightarrow>
                                 pkt1\<lparr>VLAN := Some (SetVLANTagIdentifier vlan
                                                       (Vlan (PublicPort pp1)))\<rparr>);
                     pkt3 = pkt2\<lparr>IPv4 := (IPv4 pkt2)\<lparr>SrcAddr := SwapBytesUint32 (addr val)\<rparr>\<rparr>;
                     pkt4 = setPacketSrcPort pkt3 (port val) pktTCP pktUDP pktICMP
                 in Some \<lparr>disposition = dirSEND, packet = pkt4, pair = pp1,
                          emitted = ev @ ev1\<rparr>))
      else Some \<lparr>disposition = dirKNI, packet = pkt, pair = pp, emitted = ev\<rparr>)"

text \<open>\<open>PrivateToPublicTranslation\<close> does egress translation.\<close>

definition PrivateToPublicTranslation ::
  "natParams \<Rightarrow> time \<Rightarrow> bool \<Rightarrow> portPair \<Rightarrow> Packet \<Rightarrow> outcome option" where
  "PrivateToPublicTranslation cfg now buf pp pkt =
     (case parsePacketAndCheckARP buf (PrivatePort pp) pkt of
        None \<Rightarrow> None
      | Some (d, pktVLAN, None, prt1, ev) \<Rightarrow>
          Some \<lparr>disposition = d, packet = pkt, pair = pp\<lparr>PrivatePort := prt1\<rparr>, emitted = ev\<rparr>
      | Some (d, pktVLAN, Some pktIPv4, prt1, ev) \<Rightarrow>
          (let pp0 = pp\<lparr>PrivatePort := prt1\<rparr>;
               (pktTCP, pktUDP, pktICMP) = ParseAllKnownL4ForIPv4 pkt;
               protocol = NextProtoID pktIPv4
           in case generateLookupKeyFromSrcAndHandleICMP cfg now buf (PrivatePort pp0) pkt
                     pktIPv4 pktTCP pktUDP pktICMP of
                None \<Rightarrow> None
              | Some (None, d1, ev1) \<Rightarrow>
                  Some \<lparr>disposition = d1, packet = pkt, pair = pp0, emitted = ev @ ev1\<rparr>
              | Some (Some pri2pubKey, d1, ev1) \<Rightarrow>
                  if KNIName (PrivatePort pp0) \<noteq> [] \<and>
                     Addr (Subnet (PrivatePort pp0)) = SwapBytesUint32 (DstAddr pktIPv4)
                  then Some \<lparr>disposition = dirKNI, packet = pkt, pair = pp0,
                             emitted = ev @ ev1\<rparr>
                  else
                    (case translationTable (PrivatePort pp0) protocol pri2pubKey of
                       None \<Rightarrow>
                         (let pp1 = pp0\<lparr>PrivatePort := (PrivatePort pp0)
                                      \<lparr>arpTable := (arpTable (PrivatePort pp0))
                                                     (addr pri2pubKey \<mapsto> SAddr (Ether pkt))\<rparr>\<rparr>
                          in case allocateNewEgressConnection cfg now pp1 protocol pri2pubKey of
                               Inl err \<Rightarrow>
                                 Some \<lparr>disposition = dirDROP, packet = pkt, pair = pp1,
                                       emitted = ev @ ev1 @ [Warning (FailedToAllocate err)]\<rparr>
                             | Inr (val, pp2) \<Rightarrow>
                                 pri2pubRewrite cfg now buf pp2 pkt pktVLAN pktIPv4
                                   pktTCP pktUDP pktICMP val (ev @ ev1))
                     | Some val \<Rightarrow>
                         pri2pubRewrite cfg now buf
                           (refreshLastused pp0 protocol (unat (port val)) now)
                           pkt pktVLAN pktIPv4 pktTCP pktUDP pktICMP val (ev @ ev1))))"

subsection \<open>Translation tables that did not grow\<close>

text \<open>
  \<open>noNewMappings pp pp'\<close>: every entry of a translation table of \<open>pp'\<close>, of either
  port and any protocol, is an entry of the same table of \<open>pp\<close>, with the same value.
\<close>

definition noNewMappings :: "portPair \<Rightarrow> portPair \<Rightarrow> bool" where
  "noNewMappings pp pp' \<longleftrightarrow>
     (\<forall>protocol k v.
        (translationTable (PublicPort pp') protocol k = Some v \<longrightarrow>
           translationTable (PublicPort pp) protocol k = Some v) \<and>
        (translationTable (PrivatePort pp') protocol k = Some v \<longrightarrow>
           translationTable (PrivatePort pp) protocol k = Some v))"

section \<open>Example configuration\<close>

text \<open>
  The scenario of the specification: the public side has address 203.0.113.1, the
  private side 10.0.0.1; the private host 10.0.0.5 talks from port 4000 to 8.8.8.8,
  port 80, through the public port 1024.  Times and timeouts are in seconds here.
\<close>

definition exParams :: natParams where
  "exParams = \<lparr>connectionTimeout = 60, portReuseTimeout = 1, portStart = 1024, portEnd = 1026\<rparr>"

definition exPublic :: "string \<Rightarrow> ipv4Port" where
  "exPublic kni =
     \<lparr>Index = 0, Subnet = \<lparr>Addr = 0xCB007101, Mask = 0xFFFFFF00\<rparr>,
      SrcMACAddress = MAC 2 0 0 0 0 1, Vlan = 0, KNIName = kni,
      portmap = (\<lambda>protocol p. zeroPortMapEntry),
      translationTable = (\<lambda>protocol. Map.empty),
      arpTable = [0x08080808 \<mapsto> MAC 2 0 0 0 0 8]\<rparr>"

definition exPrivate :: "string \<Rightarrow> ipv4Port" where
  "exPrivate kni =
     \<lparr>Index = 1, Subnet = \<lparr>Addr = 0x0A000001, Mask = 0xFFFFFF00\<rparr>,
      SrcMACAddress = MAC 2 0 0 0 0 2, Vlan = 0, KNIName = kni,
      portmap = (\<lambda>protocol p. zeroPortMapEntry),
      translationTable = (\<lambda>protocol. Map.empty),
      arpTable = [0x0A000005 \<mapsto> MAC 2 0 0 0 0 5]\<rparr>"

text \<open>No connection yet; \<open>kni\<close> names the kernel fallback interface of both sides.\<close>

definition exIdle :: "string \<Rightarrow> portPair" where
  "exIdle kni = \<lparr>PublicPort = exPublic kni, PrivatePort = exPrivate kni\<rparr>"

definition exPriv :: Tuple where "exPriv = \<lparr>addr = 0x0A000005, port = 4000\<rparr>"
definition exPub :: Tuple where "exPub = \<lparr>addr = 0xCB007101, port = 1024\<rparr>"

text \<open>
  The TCP connection of the scenario, established: public port 1024 last used at
  \<open>t\<close>, with \<open>n\<close> FINs seen so far, the first one from direction \<open>d\<close>.
\<close>

definition exFlow :: "time \<Rightarrow> u8 \<Rightarrow> terminationDirection \<Rightarrow> portPair" where
  "exFlow t n d =
     \<lparr>PublicPort =
        Store (setPortmap (exPublic []) TCPNumber 1024
                 \<lparr>lastused = t, pmeAddr = 0xCB007101, finCount = n,
                  terminationDirection = d, static = False\<rparr>)
          TCPNumber exPub exPriv,
      PrivatePort = Store (exPrivate []) TCPNumber exPriv exPub\<rparr>"


text \<open>Every port of the range of \<open>exParams\<close> was used at time \<open>t\<close>.\<close>

definition exFull :: "time \<Rightarrow> portPair" where
  "exFull t =
     \<lparr>PublicPort = setPortmap (setPortmap (exPublic []) TCPNumber 1024
                                  (zeroPortMapEntry\<lparr>lastused := t\<rparr>))
                     TCPNumber 1025 (zeroPortMapEntry\<lparr>lastused := t\<rparr>),
      PrivatePort = exPrivate []\<rparr>"

definition tcpPacket :: "u32 \<Rightarrow> u16 \<Rightarrow> u32 \<Rightarrow> u16 \<Rightarrow> u8 \<Rightarrow> Packet" where
  "tcpPacket src sport dst dport flags =
     NewPacket\<lparr>Ether := \<lparr>DAddr = MAC 2 0 0 0 0 9, SAddr = MAC 2 0 0 0 0 7\<rparr>,
               EtherType := IPV4Number,
               IPv4 := \<lparr>NextProtoID = TCPNumber, SrcAddr = SwapBytesUint32 src,
                        DstAddr = SwapBytesUint32 dst\<rparr>,
               TCP := \<lparr>SrcPort = SwapBytesUint16 sport, DstPort = SwapBytesUint16 dport,
                       TCPFlags = flags\<rparr>\<rparr>"

definition udpPacket :: "u32 \<Rightarrow> u16 \<Rightarrow> u32 \<Rightarrow> u16 \<Rightarrow> Packet" where
  "udpPacket src sport dst dport =
     NewPacket\<lparr>Ether := \<lparr>DAddr = MAC 2 0 0 0 0 9, SAddr = MAC 2 0 0 0 0 7\<rparr>,
               EtherType := IPV4Number,
               IPv4 := \<lparr>NextProtoID = UDPNumber, SrcAddr = SwapBytesUint32 src,
                        DstAddr = SwapBytesUint32 dst\<rparr>,
               UDP := \<lparr>udpSrcPort = SwapBytesUint16 sport, udpDstPort = SwapBytesUint16 dport\<rparr>\<rparr>"

definition icmpPacket :: "u32 \<Rightarrow> u32 \<Rightarrow> u8 \<Rightarrow> u16 \<Rightarrow> Packet" where
  "icmpPacket src dst ty ident =
     NewPacket\<lparr>Ether := \<lparr>DAddr = MAC 2 0 0 0 0 9, SAddr = MAC 2 0 0 0 0 7\<rparr>,
               EtherType := IPV4Number,
               IPv4 := \<lparr>NextProtoID = ICMPNumber, SrcAddr = SwapBytesUint32 src,
                        DstAddr = SwapBytesUint32 dst\<rparr>,
               ICMP := \<lparr>Type = ty, Code = 0, Identifier = SwapBytesUint16 ident\<rparr>\<rparr>"

definition arpRequestPacket :: "ipv4Array \<Rightarrow> macAddress \<Rightarrow> Packet" where
  "arpRequestPacket tpa tha =
     NewPacket\<lparr>Ether := \<lparr>DAddr = MAC 0xff 0xff 0xff 0xff 0xff 0xff, SAddr = MAC 2 0 0 0 0 7\<rparr>,
               EtherType := ARPNumber,
               ARP := \<lparr>Operation = SwapBytesUint16 ARPRequest, SHA = MAC 2 0 0 0 0 7,
                       SPA = IPv4Bytes 203 0 113 7, THA = tha, TPA = tpa\<rparr>\<rparr>"

text \<open>A TCP header with the given flags.\<close>

definition exSegment :: "u8 \<Rightarrow> TCPHdr" where
  "exSegment flags = \<lparr>SrcPort = SwapBytesUint16 4000, DstPort = SwapBytesUint16 80, TCPFlags = flags\<rparr>"

text \<open>
  The segments of the connection of the scenario: \<open>exIn\<close> arrives on the public side,
  \<open>exOut\<close> on the private side.
\<close>

definition exIn :: "u8 \<Rightarrow> Packet" where
  "exIn flags = tcpPacket 0x08080808 80 0xCB007101 1024 flags"

definition exOut :: "u8 \<Rightarrow> Packet" where
  "exOut flags = tcpPacket 0x0A000005 4000 0x08080808 80 flags"

text \<open>
  More packets of the private side: the first segment of another host, 10.0.0.6; an
  ICMP message of the given type to the private port's own address 10.0.0.1, and the
  echo reply to it; a TCP segment to that address.
\<close>

definition exEchoIn :: "u8 \<Rightarrow> Packet" where
  "exEchoIn ty = icmpPacket 0x08080808 0xCB007101 ty 1024"

text \<open>A UDP datagram from 8.8.8.8, port 53, to the public port 1024.\<close>

definition exDnsIn :: Packet where
  "exDnsIn = udpPacket 0x08080808 53 0xCB007101 1024"

definition exNew :: Packet where
  "exNew = tcpPacket 0x0A000006 4000 0x08080808 80 0x02"

definition exPing :: "u8 \<Rightarrow> Packet" where
  "exPing ty = icmpPacket 0x0A000005 0x0A000001 ty 7"

definition exPong :: Packet where
  "exPong = (icmpPacket 0x0A000001 0x0A000005 ICMPTypeEchoResponse 7)
              \<lparr>Ether := \<lparr>DAddr = MAC 2 0 0 0 0 7, SAddr = MAC 2 0 0 0 0 9\<rparr>,
               Checksum := RecomputedICMP\<rparr>"

definition exSsh :: Packet where
  "exSsh = tcpPacket 0x0A000005 4000 0x0A000001 22 0x02"

section \<open>Basic facts\<close>

lemmas ex_defs = exParams_def exPublic_def exPrivate_def exIdle_def exPriv_def exPub_def
  exFlow_def exFull_def tcpPacket_def icmpPacket_def arpRequestPacket_def NewPacket_def
  zeroMAC_def zeroPortMapEntry_def

lemmas const_defs = ICMPNumber_def TCPNumber_def UDPNumber_def IPV4Number_def ARPNumber_def
  TCPFlagFin_def TCPFlagSyn_def TCPFlagRst_def TCPFlagAck_def ICMPTypeEchoRequest_def
  ICMPTypeEchoResponse_def ARPRequest_def ARPReply_def pri2pub_def pub2pri_def
  SwapBytesUint16_def SwapBytesUint32_def BytesToIPv4_def

lemmas state_defs = setPortmap_def Store_def Delete_def deleteOldConnection_def

lemma not_self: "NOT (d::u8) \<noteq> d"
proof
  assume "NOT d = d"
  then have "bit (NOT d) 0 = bit d 0" by simp
  then show False by (simp add: bit_simps)
qed

lemma portmap_setPortmap:
  "portmap (setPortmap prt protocol p e) protocol' p' =
     (if protocol' = protocol \<and> p' = p then e else portmap prt protocol' p')"
  by (simp add: setPortmap_def)

lemma translationTable_setPortmap [simp]:
  "translationTable (setPortmap prt protocol p e) = translationTable prt"
  by (simp add: setPortmap_def)

lemma portmap_Delete [simp]: "portmap (Delete prt protocol k) = portmap prt"
  by (simp add: Delete_def)

lemma translationTable_Delete:
  "translationTable (Delete prt protocol k) protocol' k' =
     (if protocol' = protocol \<and> k' = k then None else translationTable prt protocol' k')"
  by (simp add: Delete_def)

lemma deleteOldConnection_public:
  "translationTable (PublicPort (deleteOldConnection pp protocol p)) protocol
     \<lparr>addr = pmeAddr (portmap (PublicPort pp) protocol p), port = of_nat p\<rparr> = None"
  by (simp add: deleteOldConnection_def Let_def translationTable_Delete split: option.split)

lemma deleteOldConnection_private:
  "translationTable (PublicPort pp) protocol
     \<lparr>addr = pmeAddr (portmap (PublicPort pp) protocol p), port = of_nat p\<rparr> = Some pri
   \<Longrightarrow> translationTable (PrivatePort (deleteOldConnection pp protocol p)) protocol pri = None"
  by (simp add: deleteOldConnection_def Let_def translationTable_Delete)

lemma deleteOldConnection_portmap:
  "portmap (PublicPort (deleteOldConnection pp protocol p)) protocol p = zeroPortMapEntry"
  by (simp add: deleteOldConnection_def Let_def portmap_setPortmap split: option.split)

lemma allocNewPort_free:
  "allocNewPort cfg now pp protocol = Inr p \<Longrightarrow>
   portFree cfg now (portmap (PublicPort pp) protocol p)"
  by (auto simp: allocNewPort_def find_Some_iff split: option.splits)

lemma handleICMP_SEND:
  "handleICMP cfg now buf prt pkt key = Some (d, ev) \<Longrightarrow> d = dirSEND \<Longrightarrow> ev = []"
  by (auto simp: handleICMP_def Let_def split: if_splits)

lemma generateLookupKeyFromDst_key:
  "generateLookupKeyFromDstAndHandleICMP cfg now buf prt pkt ip tcp udp icmp =
     Some (Some key, d, ev) \<Longrightarrow> d = dirSEND \<and> ev = []"
  by (auto simp: generateLookupKeyFromDstAndHandleICMP_def Let_def
           split: option.splits if_splits dest: handleICMP_SEND)

lemma generateLookupKeyFromSrc_key:
  "generateLookupKeyFromSrcAndHandleICMP cfg now buf prt pkt ip tcp udp icmp =
     Some (Some key, d, ev) \<Longrightarrow> d = dirSEND \<and> ev = []"
  by (auto simp: generateLookupKeyFromSrcAndHandleICMP_def Let_def
           split: option.splits if_splits dest: handleICMP_SEND)

lemma parse_IPv4:
  "EtherType pkt = IPV4Number \<Longrightarrow>
   parsePacketAndCheckARP buf prt pkt = Some (dirSEND, VLAN pkt, Some (IPv4 pkt), prt, [])"
  by (simp add: parsePacketAndCheckARP_def GetIPv4CheckVLAN_def)

lemma evictStale_Unlocked:
  "evictStale Unlocked pp protocol p = Some (Unlocked, deleteOldConnection pp protocol p)"
  by (simp add: evictStale_def mutexLock_def deleteOldConnectionLocked_def mutexUnlock_def)

lemma ingress_hit_fresh:
  assumes ip: "EtherType pkt = IPV4Number"
    and l4: "ParseAllKnownL4ForIPv4 pkt = (pktTCP, pktUDP, pktICMP)"
    and key: "generateLookupKeyFromDstAndHandleICMP cfg now buf (PublicPort pp) pkt (IPv4 pkt)
                pktTCP pktUDP pktICMP = Some (Some k, d, ev)"
    and hit: "translationTable (PublicPort pp) (NextProtoID (IPv4 pkt)) k = Some v"
    and fresh: "static (portmap (PublicPort pp) (NextProtoID (IPv4 pkt)) (unat (port k))) \<or>
                now - lastused (portmap (PublicPort pp) (NextProtoID (IPv4 pkt)) (unat (port k)))
                  \<le> connectionTimeout cfg"
  shows "PublicToPrivateTranslation cfg now buf pp pkt =
           pub2priRewrite cfg now buf
             (refreshLastused pp (NextProtoID (IPv4 pkt)) (unat (port k)) now)
             pkt (VLAN pkt) pktTCP pktUDP pktICMP (NextProtoID (IPv4 pkt)) k v []"
proof -
  from key have ev: "ev = []"
    by (rule generateLookupKeyFromDst_key [THEN conjunct2])
  from fresh show ?thesis
    by (simp add: PublicToPrivateTranslation_def parse_IPv4 [OF ip] l4 key hit ev Let_def)
qed

lemma ingress_hit_stale:
  assumes ip: "EtherType pkt = IPV4Number"
    and l4: "ParseAllKnownL4ForIPv4 pkt = (pktTCP, pktUDP, pktICMP)"
    and key: "generateLookupKeyFromDstAndHandleICMP cfg now buf (PublicPort pp) pkt (IPv4 pkt)
                pktTCP pktUDP pktICMP = Some (Some k, d, ev)"
    and hit: "translationTable (PublicPort pp) (NextProtoID (IPv4 pkt)) k = Some v"
    and stale: "\<not> (static (portmap (PublicPort pp) (NextProtoID (IPv4 pkt)) (unat (port k))) \<or>
                now - lastused (portmap (PublicPort pp) (NextProtoID (IPv4 pkt)) (unat (port k)))
                  \<le> connectionTimeout cfg)"
  shows "PublicToPrivateTranslation cfg now buf pp pkt =
           Some \<lparr>disposition = dirDROP, packet = pkt,
                 pair = deleteOldConnection pp (NextProtoID (IPv4 pkt)) (unat (port k)),
                 emitted = []\<rparr>"
proof -
  from key have ev: "ev = []"
    by (rule generateLookupKeyFromDst_key [THEN conjunct2])
  from stale show ?thesis
    by (simp add: PublicToPrivateTranslation_def parse_IPv4 [OF ip] l4 key hit ev Let_def
        evictStale_Unlocked)
qed




lemma exIn_facts:
  "EtherType (exIn f) = IPV4Number"
  "ParseAllKnownL4ForIPv4 (exIn f) = (Some (TCP (exIn f)), None, None)"
  "NextProtoID (IPv4 (exIn f)) = TCPNumber"
  "VLAN (exIn f) = None"
  "generateLookupKeyFromDstAndHandleICMP cfg now buf prt (exIn f) (IPv4 (exIn f))
     (Some (TCP (exIn f))) None None = Some (Some exPub, dirSEND, [])"
  by (simp_all add: exIn_def tcpPacket_def ParseAllKnownL4ForIPv4_def NewPacket_def
      generateLookupKeyFromDstAndHandleICMP_def exPub_def const_defs)

lemma exOut_facts:
  "EtherType (exOut f) = IPV4Number"
  "ParseAllKnownL4ForIPv4 (exOut f) = (Some (TCP (exOut f)), None, None)"
  "NextProtoID (IPv4 (exOut f)) = TCPNumber"
  "VLAN (exOut f) = None"
  "SwapBytesUint32 (DstAddr (IPv4 (exOut f))) = 0x08080808"
  "generateLookupKeyFromSrcAndHandleICMP cfg now buf prt (exOut f) (IPv4 (exOut f))
     (Some (TCP (exOut f))) None None = Some (Some exPriv, dirSEND, [])"
  by (simp_all add: exOut_def tcpPacket_def ParseAllKnownL4ForIPv4_def NewPacket_def
      generateLookupKeyFromSrcAndHandleICMP_def exPriv_def const_defs)

lemma exFlow_facts:
  "translationTable (PublicPort (exFlow t n dd)) TCPNumber exPub = Some exPriv"
  "translationTable (PrivatePort (exFlow t n dd)) TCPNumber exPriv = Some exPub"
  "portmap (PublicPort (exFlow t n dd)) TCPNumber 1024 =
     \<lparr>lastused = t, pmeAddr = 0xCB007101, finCount = n, terminationDirection = dd, static = False\<rparr>"
  "KNIName (PrivatePort (exFlow t n dd)) = []"
  "KNIName (PublicPort (exFlow t n dd)) = []"
  "unat (port exPub) = 1024"
  "addr exPub = 0xCB007101"
  by (simp_all add: exFlow_def state_defs exPub_def exPriv_def exPublic_def exPrivate_def)

lemma IPv4ToBytes_ArrayToIPv4: "IPv4ToBytes (ArrayToIPv4 a) = a"
proof (cases a)
  case (IPv4Bytes a b c d)
  have "ucast (BytesToIPv4 a b c d) = a"
    by (rule bit_word_eqI) (auto simp: BytesToIPv4_def bit_simps dest: bit_imp_le_length)
  moreover have "ucast (drop_bit 8 (BytesToIPv4 a b c d)) = b"
    by (rule bit_word_eqI) (auto simp: BytesToIPv4_def bit_simps dest: bit_imp_le_length)
  moreover have "ucast (drop_bit 16 (BytesToIPv4 a b c d)) = c"
    by (rule bit_word_eqI) (auto simp: BytesToIPv4_def bit_simps dest: bit_imp_le_length)
  moreover have "ucast (drop_bit 24 (BytesToIPv4 a b c d)) = d"
    by (rule bit_word_eqI) (auto simp: BytesToIPv4_def bit_simps dest: bit_imp_le_length)
  ultimately show ?thesis
    by (simp add: IPv4Bytes IPv4ToBytes_def)
qed


lemma ArrayToIPv4_cases:
  "(case a of IPv4Bytes a b c d \<Rightarrow> BytesToIPv4 a b c d) = ArrayToIPv4 a"
  by (cases a) simp

lemma allocNewPort_PrivatePort [simp]:
  "allocNewPort cfg now (pp\<lparr>PrivatePort := prt\<rparr>) protocol = allocNewPort cfg now pp protocol"
  by (simp add: allocNewPort_def)

lemma egress_miss_full:
  assumes ip: "EtherType pkt = IPV4Number"
    and l4: "ParseAllKnownL4ForIPv4 pkt = (pktTCP, pktUDP, pktICMP)"
    and key: "generateLookupKeyFromSrcAndHandleICMP cfg now buf (PrivatePort pp) pkt (IPv4 pkt)
                pktTCP pktUDP pktICMP = Some (Some k, d, ev)"
    and notself: "\<not> (KNIName (PrivatePort pp) \<noteq> [] \<and>
                     Addr (Subnet (PrivatePort pp)) = SwapBytesUint32 (DstAddr (IPv4 pkt)))"
    and miss: "translationTable (PrivatePort pp) (NextProtoID (IPv4 pkt)) k = None"
    and full: "allocNewPort cfg now pp (NextProtoID (IPv4 pkt)) = Inl err"
  shows "PrivateToPublicTranslation cfg now buf pp pkt =
           Some \<lparr>disposition = dirDROP, packet = pkt,
                 pair = pp\<lparr>PrivatePort := (PrivatePort pp)
                          \<lparr>arpTable := (arpTable (PrivatePort pp))
                                         (addr k \<mapsto> SAddr (Ether pkt))\<rparr>\<rparr>,
                 emitted = [Warning (FailedToAllocate err)]\<rparr>"
proof -
  from key have ev: "ev = []"
    by (rule generateLookupKeyFromSrc_key [THEN conjunct2])
  have "PrivateToPublicTranslation cfg now buf pp pkt =
          (if KNIName (PrivatePort pp) \<noteq> [] \<and>
              Addr (Subnet (PrivatePort pp)) = SwapBytesUint32 (DstAddr (IPv4 pkt))
           then Some \<lparr>disposition = dirKNI, packet = pkt, pair = pp, emitted = []\<rparr>
           else Some \<lparr>disposition = dirDROP, packet = pkt,
                 pair = pp\<lparr>PrivatePort := (PrivatePort pp)
                          \<lparr>arpTable := (arpTable (PrivatePort pp))
                                         (addr k \<mapsto> SAddr (Ether pkt))\<rparr>\<rparr>,
                 emitted = [Warning (FailedToAllocate err)]\<rparr>)"
    by (simp add: PrivateToPublicTranslation_def parse_IPv4 [OF ip] l4 key miss ev Let_def
        allocateNewEgressConnection_def full)
  then show ?thesis
    by (simp only: notself if_False)
qed

lemma arpTable_Delete [simp]: "arpTable (Delete prt protocol k) = arpTable prt"
  by (simp add: Delete_def)

lemma arpTable_Store [simp]: "arpTable (Store prt protocol k v) = arpTable prt"
  by (simp add: Store_def)

lemma arpTable_deleteOldConnection [simp]:
  "arpTable (PrivatePort (deleteOldConnection pp protocol p)) = arpTable (PrivatePort pp)"
  by (simp add: deleteOldConnection_def Let_def split: option.split)

lemma arpTable_checkTCPTermination [simp]:
  "arpTable (PrivatePort (checkTCPTermination cfg now pp hdr p d)) = arpTable (PrivatePort pp)"
  by (simp add: checkTCPTermination_def Let_def)

lemma arpTable_refreshLastused [simp]:
  "arpTable (PrivatePort (refreshLastused pp protocol p now)) = arpTable (PrivatePort pp)"
  by (simp add: refreshLastused_def)

lemma arpTable_allocateNewEgressConnection:
  "allocateNewEgressConnection cfg now pp protocol k = Inr (v, pp2) \<Longrightarrow>
   arpTable (PrivatePort pp2) = arpTable (PrivatePort pp)"
  by (auto simp: allocateNewEgressConnection_def Let_def split: sum.splits)

lemma arpTable_pri2pubRewrite:
  "pri2pubRewrite cfg now buf pp pkt pktVLAN ip pktTCP pktUDP pktICMP v ev = Some r \<Longrightarrow>
   arpTable (PrivatePort (pair r)) = arpTable (PrivatePort pp)"
  by (auto simp: pri2pubRewrite_def Let_def split: if_splits option.splits)

lemma getMACForIP_buf: "\<exists>m e. getMACForIP True prt ip = Some (m, e)"
  by (simp add: getMACForIP_def sendARPRequest_def Let_def split: option.split)

lemma pri2pubRewrite_buf:
  "pri2pubRewrite cfg now True pp pkt pktVLAN ip pktTCP pktUDP pktICMP v ev \<noteq> None"
proof -
  define pp1 where "pp1 = (case pktTCP of
                      None \<Rightarrow> pp
                    | Some tcp \<Rightarrow> checkTCPTermination cfg now pp tcp (unat (port v)) pri2pub)"
  obtain m e where "getMACForIP True (PublicPort pp1) (SwapBytesUint32 (DstAddr ip)) = Some (m, e)"
    using getMACForIP_buf by blast
  then show ?thesis
    by (cases m) (simp_all add: pri2pubRewrite_def Let_def pp1_def [symmetric])
qed

lemma egress_miss:
  assumes ip: "EtherType pkt = IPV4Number"
    and l4: "ParseAllKnownL4ForIPv4 pkt = (pktTCP, pktUDP, pktICMP)"
    and key: "generateLookupKeyFromSrcAndHandleICMP cfg now buf (PrivatePort pp) pkt (IPv4 pkt)
                pktTCP pktUDP pktICMP = Some (Some k, d, ev)"
    and notself: "\<not> (KNIName (PrivatePort pp) \<noteq> [] \<and>
                     Addr (Subnet (PrivatePort pp)) = SwapBytesUint32 (DstAddr (IPv4 pkt)))"
    and miss: "translationTable (PrivatePort pp) (NextProtoID (IPv4 pkt)) k = None"
  shows "PrivateToPublicTranslation cfg now buf pp pkt =
           (let pp1 = pp\<lparr>PrivatePort := (PrivatePort pp)
                          \<lparr>arpTable := (arpTable (PrivatePort pp))
                                         (addr k \<mapsto> SAddr (Ether pkt))\<rparr>\<rparr>
            in case allocateNewEgressConnection cfg now pp1 (NextProtoID (IPv4 pkt)) k of
                 Inl err \<Rightarrow> Some \<lparr>disposition = dirDROP, packet = pkt, pair = pp1,
                                  emitted = [Warning (FailedToAllocate err)]\<rparr>
               | Inr (val, pp2) \<Rightarrow>
                   pri2pubRewrite cfg now buf pp2 pkt (VLAN pkt) (IPv4 pkt)
                     pktTCP pktUDP pktICMP val [])"
proof -
  from key have ev: "ev = []"
    by (rule generateLookupKeyFromSrc_key [THEN conjunct2])
  have "PrivateToPublicTranslation cfg now buf pp pkt =
          (if KNIName (PrivatePort pp) \<noteq> [] \<and>
              Addr (Subnet (PrivatePort pp)) = SwapBytesUint32 (DstAddr (IPv4 pkt))
           then Some \<lparr>disposition = dirKNI, packet = pkt, pair = pp, emitted = []\<rparr>
           else (let pp1 = pp\<lparr>PrivatePort := (PrivatePort pp)
                          \<lparr>arpTable := (arpTable (PrivatePort pp))
                                         (addr k \<mapsto> SAddr (Ether pkt))\<rparr>\<rparr>
            in case allocateNewEgressConnection cfg now pp1 (NextProtoID (IPv4 pkt)) k of
                 Inl err \<Rightarrow> Some \<lparr>disposition = dirDROP, packet = pkt, pair = pp1,
                                  emitted = [Warning (FailedToAllocate err)]\<rparr>
               | Inr (val, pp2) \<Rightarrow>
                   pri2pubRewrite cfg now buf pp2 pkt (VLAN pkt) (IPv4 pkt)
                     pktTCP pktUDP pktICMP val []))"
    by (simp add: PrivateToPublicTranslation_def parse_IPv4 [OF ip] l4 key miss ev Let_def
        split: sum.split prod.split)
  then show ?thesis
    by (simp only: notself if_False)
qed

lemma exNew_facts:
  "EtherType exNew = IPV4Number"
  "ParseAllKnownL4ForIPv4 exNew = (Some (TCP exNew), None, None)"
  "NextProtoID (IPv4 exNew) = TCPNumber"
  "SwapBytesUint32 (DstAddr (IPv4 exNew)) = 0x08080808"
  "SAddr (Ether exNew) = MAC 2 0 0 0 0 7"
  "generateLookupKeyFromSrcAndHandleICMP cfg now buf prt exNew (IPv4 exNew)
     (Some (TCP exNew)) None None = Some (Some \<lparr>addr = 0x0A000006, port = 4000\<rparr>, dirSEND, [])"
  by (simp_all add: exNew_def tcpPacket_def ParseAllKnownL4ForIPv4_def NewPacket_def
      generateLookupKeyFromSrcAndHandleICMP_def const_defs)

lemma exFull_facts:
  "KNIName (PrivatePort (exFull t)) = []"
  "translationTable (PrivatePort (exFull t)) protocol k = None"
  "arpTable (PrivatePort (exFull t)) = [0x0A000005 \<mapsto> MAC 2 0 0 0 0 5]"
  by (simp_all add: exFull_def exPrivate_def)

lemma exFull_exhausted: "allocNewPort exParams 1000 (exFull 990) TCPNumber = Inl PoolExhausted"
  by (simp add: allocNewPort_def exParams_def exFull_def portmap_setPortmap portFree_def
      zeroPortMapEntry_def upt_rec [of 1024] upt_rec [of 1025] upt_rec [of 1026])

lemma handleICMP_egress_other:
  "Type (ICMP pkt) \<noteq> ICMPTypeEchoRequest \<or> Code (ICMP pkt) \<noteq> 0 \<Longrightarrow>
   handleICMP cfg now buf prt pkt None = Some (dirSEND, [])"
  by (auto simp: handleICMP_def Let_def)

lemma handleICMP_egress_echo:
  "SwapBytesUint32 (DstAddr (IPv4 pkt)) = Addr (Subnet prt) \<Longrightarrow>
   Type (ICMP pkt) = ICMPTypeEchoRequest \<Longrightarrow> Code (ICMP pkt) = 0 \<Longrightarrow>
   handleICMP cfg now True prt pkt None =
     Some (dirDROP,
           [SendPacket (setIPv4ICMPChecksum
                          ((swapAddrIPv4 pkt)
                             \<lparr>ICMP := (ICMP (swapAddrIPv4 pkt))\<lparr>Type := ICMPTypeEchoResponse\<rparr>\<rparr>))
              (Index prt)])"
  by (simp add: handleICMP_def Let_def)

lemma exIdle_kni_facts:
  "KNIName (PrivatePort (exIdle ''kni0'')) \<noteq> []"
  "Addr (Subnet (PrivatePort (exIdle kni))) = 0x0A000001"
  "Index (PrivatePort (exIdle kni)) = 1"
  by (simp_all add: exIdle_def exPrivate_def)

lemma exPing_facts:
  "EtherType (exPing ty) = IPV4Number"
  "NextProtoID (IPv4 (exPing ty)) = ICMPNumber"
  "SwapBytesUint32 (DstAddr (IPv4 (exPing ty))) = 0x0A000001"
  "Type (ICMP (exPing ty)) = ty"
  "Code (ICMP (exPing ty)) = 0"
  by (simp_all add: exPing_def icmpPacket_def NewPacket_def const_defs)

lemma exSsh_facts:
  "EtherType exSsh = IPV4Number"
  "NextProtoID (IPv4 exSsh) = TCPNumber"
  "SwapBytesUint32 (DstAddr (IPv4 exSsh)) = 0x0A000001"
  by (simp_all add: exSsh_def tcpPacket_def NewPacket_def const_defs)

lemma ingress_miss:
  assumes ip: "EtherType pkt = IPV4Number"
    and l4: "ParseAllKnownL4ForIPv4 pkt = (pktTCP, pktUDP, pktICMP)"
    and key: "generateLookupKeyFromDstAndHandleICMP cfg now buf (PublicPort pp) pkt (IPv4 pkt)
                pktTCP pktUDP pktICMP = Some (Some pub2priKey, d, ev)"
    and miss: "translationTable (PublicPort pp) (NextProtoID (IPv4 pkt)) pub2priKey = None"
  shows "PublicToPrivateTranslation cfg now buf pp pkt =
           Some \<lparr>disposition = dirDROP, packet = pkt, pair = pp, emitted = []\<rparr>"
proof -
  from key have ev: "ev = []"
    by (rule generateLookupKeyFromDst_key [THEN conjunct2])
  show ?thesis
    by (simp add: PublicToPrivateTranslation_def parse_IPv4 [OF ip] l4 key miss ev)
qed


lemma noNewMappings_refl [simp]: "noNewMappings pp pp"
  by (simp add: noNewMappings_def)

lemma noNewMappings_trans: "noNewMappings a b \<Longrightarrow> noNewMappings b c \<Longrightarrow> noNewMappings a c"
  unfolding noNewMappings_def by blast

lemma entry_Delete:
  "translationTable (Delete prt protocol k) protocol' k' = Some v \<Longrightarrow>
   translationTable prt protocol' k' = Some v"
  by (simp add: translationTable_Delete split: if_splits)

lemma noNewMappings_deleteOldConnection [simp]: "noNewMappings pp (deleteOldConnection pp protocol p)"
proof (cases "translationTable (PublicPort pp) protocol
     \<lparr>addr = pmeAddr (portmap (PublicPort pp) protocol p), port = of_nat p\<rparr>")
  case None
  then show ?thesis
    by (simp add: noNewMappings_def deleteOldConnection_def Let_def)
next
  case (Some a)
  then show ?thesis
    by (auto simp: noNewMappings_def deleteOldConnection_def Let_def dest: entry_Delete)
qed


lemma noNewMappings_refreshLastused [simp]: "noNewMappings pp (refreshLastused pp protocol p now)"
  by (simp add: noNewMappings_def refreshLastused_def)

lemma noNewMappings_setPortmap [simp]:
  "noNewMappings pp (pp\<lparr>PublicPort := setPortmap (PublicPort pp) protocol p e\<rparr>)"
  by (simp add: noNewMappings_def)

lemma noNewMappings_checkTCPTermination [simp]: "noNewMappings pp (checkTCPTermination cfg now pp hdr p d)"
proof -
  have "noNewMappings pp
          ((deleteOldConnection pp TCPNumber p)
             \<lparr>PublicPort := setPortmap (PublicPort (deleteOldConnection pp TCPNumber p)) TCPNumber p e\<rparr>)"
    for e
    by (rule noNewMappings_trans [OF noNewMappings_deleteOldConnection noNewMappings_setPortmap])
  then show ?thesis
    by (simp add: checkTCPTermination_def Let_def)
qed

lemma noNewMappings_pub2priRewrite:
  assumes "pub2priRewrite cfg now buf pp pkt pktVLAN pktTCP pktUDP pktICMP protocol k v ev = Some r"
  shows "noNewMappings pp (pair r)"
proof (cases "addr v \<noteq> 0")
  case False
  with assms show ?thesis
    by (auto simp: pub2priRewrite_def)
next
  case True
  define pp1 where "pp1 = (if protocol = TCPNumber
               then (case pktTCP of
                       None \<Rightarrow> None
                     | Some tcp \<Rightarrow>
                         Some (checkTCPTermination cfg now pp tcp (unat (port k)) pub2pri))
               else Some pp)"
  from assms True obtain q where q: "pp1 = Some q" and r: "pair r = q"
    unfolding pub2priRewrite_def pp1_def [symmetric]
    by (auto simp: Let_def split: option.splits)
  from q have "noNewMappings pp q"
    by (auto simp: pp1_def split: if_splits option.splits)
  with r show ?thesis by simp
qed


lemma handleARP_tables:
  "handleARP buf prt pkt = Some (d, prt1, ev) \<Longrightarrow> translationTable prt1 = translationTable prt"
  by (auto simp: handleARP_def Let_def split: if_splits)

lemma parse_not_IPv4:
  "EtherType pkt \<noteq> IPV4Number \<Longrightarrow>
   parsePacketAndCheckARP buf prt pkt = Some (d, vl, ip, prt1, ev) \<Longrightarrow>
   ip = None \<and> translationTable prt1 = translationTable prt"
  by (auto simp: parsePacketAndCheckARP_def GetIPv4CheckVLAN_def Let_def
           split: option.splits dest: handleARP_tables)

lemma ingress_not_IPv4:
  assumes nip: "EtherType pkt \<noteq> IPV4Number"
    and run: "PublicToPrivateTranslation cfg now buf pp pkt = Some r"
  shows "noNewMappings pp (pair r)"
proof (cases "parsePacketAndCheckARP buf (PublicPort pp) pkt")
  case None
  with run show ?thesis
    by (simp add: PublicToPrivateTranslation_def)
next
  case (Some res)
  obtain d vl ip prt1 ev where res: "res = (d, vl, ip, prt1, ev)"
    by (cases res) auto
  from parse_not_IPv4 [OF nip Some [unfolded res]]
  have ip: "ip = None" and tt: "translationTable prt1 = translationTable (PublicPort pp)"
    by simp_all
  from run have "pair r = pp\<lparr>PublicPort := prt1\<rparr>"
    by (auto simp: PublicToPrivateTranslation_def Some res ip)
  with tt show ?thesis
    by (simp add: noNewMappings_def)
qed

lemma ingress_IPv4:
  assumes ip: "EtherType pkt = IPV4Number"
    and run: "PublicToPrivateTranslation cfg now buf pp pkt = Some r"
  shows "noNewMappings pp (pair r)"
proof -
  obtain pktTCP pktUDP pktICMP where l4: "ParseAllKnownL4ForIPv4 pkt = (pktTCP, pktUDP, pktICMP)"
    by (cases "ParseAllKnownL4ForIPv4 pkt") auto
  from run obtain ko d ev where
    key: "generateLookupKeyFromDstAndHandleICMP cfg now buf (PublicPort pp) pkt (IPv4 pkt)
            pktTCP pktUDP pktICMP = Some (ko, d, ev)"
    by (cases "generateLookupKeyFromDstAndHandleICMP cfg now buf (PublicPort pp) pkt (IPv4 pkt)
            pktTCP pktUDP pktICMP")
       (auto simp: PublicToPrivateTranslation_def parse_IPv4 [OF ip] l4)
  show ?thesis
  proof (cases ko)
    case None
    with run key show ?thesis
      by (auto simp: PublicToPrivateTranslation_def parse_IPv4 [OF ip] l4)
  next
    case (Some k)
    note k = this
    show ?thesis
    proof (cases "translationTable (PublicPort pp) (NextProtoID (IPv4 pkt)) k")
      case None
      with ingress_miss [OF ip l4 key [unfolded k] None] run show ?thesis
        by auto
    next
      case (Some v)
      let ?pme = "portmap (PublicPort pp) (NextProtoID (IPv4 pkt)) (unat (port k))"
      show ?thesis
      proof (cases "static ?pme \<or> now - lastused ?pme \<le> connectionTimeout cfg")
        case True
        from ingress_hit_fresh [OF ip l4 key [unfolded k] Some True] run
        have "pub2priRewrite cfg now buf
                (refreshLastused pp (NextProtoID (IPv4 pkt)) (unat (port k)) now)
                pkt (VLAN pkt) pktTCP pktUDP pktICMP (NextProtoID (IPv4 pkt)) k v [] = Some r"
          by simp
        then have "noNewMappings (refreshLastused pp (NextProtoID (IPv4 pkt)) (unat (port k)) now) (pair r)"
          by (rule noNewMappings_pub2priRewrite)
        then show ?thesis
          by (rule noNewMappings_trans [OF noNewMappings_refreshLastused])
      next
        case False
        from ingress_hit_stale [OF ip l4 key [unfolded k] Some False] run show ?thesis
          by auto
      qed
    qed
  qed
qed

lemma ingress_ICMP_handled:
  assumes ip: "EtherType pkt = IPV4Number"
    and icmp: "NextProtoID (IPv4 pkt) = ICMPNumber"
    and h: "handleICMP cfg now buf (PublicPort pp) pkt
              (Some \<lparr>addr = SwapBytesUint32 (DstAddr (IPv4 pkt)),
                     port = SwapBytesUint16 (Identifier (ICMP pkt))\<rparr>) = Some (d, ev)"
    and d: "d \<noteq> dirSEND"
  shows "PublicToPrivateTranslation cfg now buf pp pkt =
           Some \<lparr>disposition = d, packet = pkt, pair = pp, emitted = ev\<rparr>"
  using icmp h d
  by (simp add: PublicToPrivateTranslation_def parse_IPv4 [OF ip] ParseAllKnownL4ForIPv4_def
      generateLookupKeyFromDstAndHandleICMP_def Let_def TCPNumber_def UDPNumber_def ICMPNumber_def)

lemma egress_ICMP_handled:
  assumes ip: "EtherType pkt = IPV4Number"
    and icmp: "NextProtoID (IPv4 pkt) = ICMPNumber"
    and h: "handleICMP cfg now buf (PrivatePort pp) pkt None = Some (d, ev)"
    and d: "d \<noteq> dirSEND"
  shows "PrivateToPublicTranslation cfg now buf pp pkt =
           Some \<lparr>disposition = d, packet = pkt, pair = pp, emitted = ev\<rparr>"
  using icmp h d
  by (simp add: PrivateToPublicTranslation_def parse_IPv4 [OF ip] ParseAllKnownL4ForIPv4_def
      generateLookupKeyFromSrcAndHandleICMP_def Let_def TCPNumber_def UDPNumber_def ICMPNumber_def)

lemma ARP_dispatch:
  assumes arp: "EtherType pkt = ARPNumber"
  shows "PublicToPrivateTranslation cfg now buf (pp\<lparr>PublicPort := prt\<rparr>) pkt =
           (case handleARP buf prt pkt of
              None \<Rightarrow> None
            | Some (d, prt1, ev) \<Rightarrow>
                Some \<lparr>disposition = d, packet = pkt, pair = pp\<lparr>PublicPort := prt1\<rparr>,
                      emitted = ev\<rparr>)"
    and "PrivateToPublicTranslation cfg now buf (pp\<lparr>PrivatePort := prt\<rparr>) pkt =
           (case handleARP buf prt pkt of
              None \<Rightarrow> None
            | Some (d, prt1, ev) \<Rightarrow>
                Some \<lparr>disposition = d, packet = pkt, pair = pp\<lparr>PrivatePort := prt1\<rparr>,
                      emitted = ev\<rparr>)"
  using arp
  by (simp_all add: PublicToPrivateTranslation_def PrivateToPublicTranslation_def
      parsePacketAndCheckARP_def GetIPv4CheckVLAN_def GetARPCheckVLAN_def IPV4Number_def
      ARPNumber_def split: option.split)

lemma l4_cases:
  "NextProtoID (IPv4 pkt) = TCPNumber \<Longrightarrow>
     ParseAllKnownL4ForIPv4 pkt = (Some (TCP pkt), None, None)"
  "NextProtoID (IPv4 pkt) = UDPNumber \<Longrightarrow>
     ParseAllKnownL4ForIPv4 pkt = (None, Some (UDP pkt), None)"
  "NextProtoID (IPv4 pkt) = ICMPNumber \<Longrightarrow>
     ParseAllKnownL4ForIPv4 pkt = (None, None, Some (ICMP pkt))"
  by (simp_all add: ParseAllKnownL4ForIPv4_def TCPNumber_def UDPNumber_def ICMPNumber_def)


lemma ingress_miss_TCP:
  assumes ip: "EtherType pkt = IPV4Number"
    and tcp: "NextProtoID (IPv4 pkt) = TCPNumber"
    and miss: "translationTable (PublicPort pp) TCPNumber
                 \<lparr>addr = SwapBytesUint32 (DstAddr (IPv4 pkt)),
                  port = SwapBytesUint16 (DstPort (TCP pkt))\<rparr> = None"
  shows "PublicToPrivateTranslation cfg now buf pp pkt =
           Some \<lparr>disposition = dirDROP, packet = pkt, pair = pp, emitted = []\<rparr>"
proof -
  have key: "generateLookupKeyFromDstAndHandleICMP cfg now buf (PublicPort pp) pkt (IPv4 pkt)
               (Some (TCP pkt)) None None =
             Some (Some \<lparr>addr = SwapBytesUint32 (DstAddr (IPv4 pkt)),
                         port = SwapBytesUint16 (DstPort (TCP pkt))\<rparr>, dirSEND, [])"
    by (simp add: generateLookupKeyFromDstAndHandleICMP_def)
  from miss have "translationTable (PublicPort pp) (NextProtoID (IPv4 pkt))
                 \<lparr>addr = SwapBytesUint32 (DstAddr (IPv4 pkt)),
                  port = SwapBytesUint16 (DstPort (TCP pkt))\<rparr> = None"
    by (simp only: tcp)
  with ip l4_cases(1) [OF tcp] key show ?thesis
    by (rule ingress_miss)
qed

lemma ingress_miss_UDP:
  assumes ip: "EtherType pkt = IPV4Number"
    and udp: "NextProtoID (IPv4 pkt) = UDPNumber"
    and miss: "translationTable (PublicPort pp) UDPNumber
                 \<lparr>addr = SwapBytesUint32 (DstAddr (IPv4 pkt)),
                  port = SwapBytesUint16 (udpDstPort (UDP pkt))\<rparr> = None"
  shows "PublicToPrivateTranslation cfg now buf pp pkt =
           Some \<lparr>disposition = dirDROP, packet = pkt, pair = pp, emitted = []\<rparr>"
proof -
  have key: "generateLookupKeyFromDstAndHandleICMP cfg now buf (PublicPort pp) pkt (IPv4 pkt)
               None (Some (UDP pkt)) None =
             Some (Some \<lparr>addr = SwapBytesUint32 (DstAddr (IPv4 pkt)),
                         port = SwapBytesUint16 (udpDstPort (UDP pkt))\<rparr>, dirSEND, [])"
    by (simp add: generateLookupKeyFromDstAndHandleICMP_def)
  from miss have "translationTable (PublicPort pp) (NextProtoID (IPv4 pkt))
                 \<lparr>addr = SwapBytesUint32 (DstAddr (IPv4 pkt)),
                  port = SwapBytesUint16 (udpDstPort (UDP pkt))\<rparr> = None"
    by (simp only: udp)
  with ip l4_cases(2) [OF udp] key show ?thesis
    by (rule ingress_miss)
qed

lemma ingress_ICMP_fatal:
  assumes ip: "EtherType pkt = IPV4Number"
    and icmp: "NextProtoID (IPv4 pkt) = ICMPNumber"
    and h: "handleICMP cfg now buf (PublicPort pp) pkt
              (Some \<lparr>addr = SwapBytesUint32 (DstAddr (IPv4 pkt)),
                     port = SwapBytesUint16 (Identifier (ICMP pkt))\<rparr>) = None"
  shows "PublicToPrivateTranslation cfg now buf pp pkt = None"
  using h
  by (simp add: PublicToPrivateTranslation_def parse_IPv4 [OF ip] l4_cases(3) [OF icmp]
      generateLookupKeyFromDstAndHandleICMP_def Let_def)

lemma ingress_ICMP_passed:
  assumes icmp: "NextProtoID (IPv4 pkt) = ICMPNumber"
    and h: "handleICMP cfg now buf (PublicPort pp) pkt
              (Some \<lparr>addr = SwapBytesUint32 (DstAddr (IPv4 pkt)),
                     port = SwapBytesUint16 (Identifier (ICMP pkt))\<rparr>) = Some (dirSEND, [])"
  shows "generateLookupKeyFromDstAndHandleICMP cfg now buf (PublicPort pp) pkt (IPv4 pkt)
           None None (Some (ICMP pkt)) =
         Some (Some \<lparr>addr = SwapBytesUint32 (DstAddr (IPv4 pkt)),
                     port = SwapBytesUint16 (Identifier (ICMP pkt))\<rparr>, dirSEND, [])"
  using h by (simp add: generateLookupKeyFromDstAndHandleICMP_def Let_def)

lemma ingress_miss_ICMP:
  assumes ip: "EtherType pkt = IPV4Number"
    and icmp: "NextProtoID (IPv4 pkt) = ICMPNumber"
    and miss: "translationTable (PublicPort pp) ICMPNumber
                 \<lparr>addr = SwapBytesUint32 (DstAddr (IPv4 pkt)),
                  port = SwapBytesUint16 (Identifier (ICMP pkt))\<rparr> = None"
  shows "PublicToPrivateTranslation cfg now buf pp pkt =
           (if SwapBytesUint32 (DstAddr (IPv4 pkt)) = Addr (Subnet (PublicPort pp)) \<and>
               KNIName (PublicPort pp) \<noteq> []
            then Some \<lparr>disposition = dirKNI, packet = pkt, pair = pp, emitted = []\<rparr>
            else if SwapBytesUint32 (DstAddr (IPv4 pkt)) = Addr (Subnet (PublicPort pp)) \<and>
                    Type (ICMP pkt) = ICMPTypeEchoRequest \<and> Code (ICMP pkt) = 0
            then (if buf
                  then Some \<lparr>disposition = dirDROP, packet = pkt, pair = pp,
                             emitted =
                               [SendPacket
                                  (setIPv4ICMPChecksum
                                     ((swapAddrIPv4 pkt)
                                        \<lparr>ICMP := (ICMP (swapAddrIPv4 pkt))
                                                   \<lparr>Type := ICMPTypeEchoResponse\<rparr>\<rparr>))
                                  (Index (PublicPort pp))]\<rparr>
                  else None)
            else Some \<lparr>disposition = dirDROP, packet = pkt, pair = pp, emitted = []\<rparr>)"
proof -
  let ?key = "\<lparr>addr = SwapBytesUint32 (DstAddr (IPv4 pkt)),
               port = SwapBytesUint16 (Identifier (ICMP pkt))\<rparr>"
  let ?self = "SwapBytesUint32 (DstAddr (IPv4 pkt)) = Addr (Subnet (PublicPort pp))"
  let ?echo = "Type (ICMP pkt) = ICMPTypeEchoRequest \<and> Code (ICMP pkt) = 0"
  consider (kni) "?self" "KNIName (PublicPort pp) \<noteq> []"
    | (echo) "?self" "KNIName (PublicPort pp) = []" "?echo" "buf"
    | (fatal) "?self" "KNIName (PublicPort pp) = []" "?echo" "\<not> buf"
    | (other) "?self" "KNIName (PublicPort pp) = []" "\<not> ?echo"
    | (transit) "\<not> ?self"
    by blast
  then show ?thesis
  proof cases
    case kni
    from miss kni(1) have "translationTable (PublicPort pp) ICMPNumber
        \<lparr>addr = Addr (Subnet (PublicPort pp)),
         port = SwapBytesUint16 (Identifier (ICMP pkt))\<rparr> = None"
      by simp
    with kni have "handleICMP cfg now buf (PublicPort pp) pkt (Some ?key) = Some (dirKNI, [])"
      by (simp add: handleICMP_def Let_def)
    from ingress_ICMP_handled [OF ip icmp this] kni show ?thesis
      by simp
  next
    case echo
    then have "handleICMP cfg now buf (PublicPort pp) pkt (Some ?key) =
        Some (dirDROP, [SendPacket
                                  (setIPv4ICMPChecksum
                                     ((swapAddrIPv4 pkt)
                                        \<lparr>ICMP := (ICMP (swapAddrIPv4 pkt))
                                                   \<lparr>Type := ICMPTypeEchoResponse\<rparr>\<rparr>))
                                  (Index (PublicPort pp))])"
      by (simp add: handleICMP_def Let_def)
    from ingress_ICMP_handled [OF ip icmp this] echo show ?thesis
      by simp
  next
    case fatal
    then have "handleICMP cfg now buf (PublicPort pp) pkt (Some ?key) = None"
      by (simp add: handleICMP_def Let_def)
    from ingress_ICMP_fatal [OF ip icmp this] fatal show ?thesis
      by simp
  next
    case other
    then have "handleICMP cfg now buf (PublicPort pp) pkt (Some ?key) = Some (dirSEND, [])"
      by (auto simp: handleICMP_def Let_def)
    then have key: "generateLookupKeyFromDstAndHandleICMP cfg now buf (PublicPort pp) pkt
        (IPv4 pkt) None None (Some (ICMP pkt)) = Some (Some ?key, dirSEND, [])"
      by (rule ingress_ICMP_passed [OF icmp])
    from miss have "translationTable (PublicPort pp) (NextProtoID (IPv4 pkt)) ?key = None"
      by (simp only: icmp)
    with ip l4_cases(3) [OF icmp] key
    have "PublicToPrivateTranslation cfg now buf pp pkt =
           Some \<lparr>disposition = dirDROP, packet = pkt, pair = pp, emitted = []\<rparr>"
      by (rule ingress_miss)
    with other show ?thesis
      by auto
  next
    case transit
    then have "handleICMP cfg now buf (PublicPort pp) pkt (Some ?key) = Some (dirSEND, [])"
      by (simp add: handleICMP_def Let_def)
    then have key: "generateLookupKeyFromDstAndHandleICMP cfg now buf (PublicPort pp) pkt
        (IPv4 pkt) None None (Some (ICMP pkt)) = Some (Some ?key, dirSEND, [])"
      by (rule ingress_ICMP_passed [OF icmp])
    from miss have "translationTable (PublicPort pp) (NextProtoID (IPv4 pkt)) ?key = None"
      by (simp only: icmp)
    with ip l4_cases(3) [OF icmp] key
    have "PublicToPrivateTranslation cfg now buf pp pkt =
           Some \<lparr>disposition = dirDROP, packet = pkt, pair = pp, emitted = []\<rparr>"
      by (rule ingress_miss)
    with transit show ?thesis
      by simp
  qed
qed

lemma ingress_noNewMappings:
  assumes run: "PublicToPrivateTranslation cfg now buf pp pkt = Some r"
  shows "noNewMappings pp (pair r)"
proof (cases "EtherType pkt = IPV4Number")
  case True
  then show ?thesis using run by (rule ingress_IPv4)
next
  case False
  then show ?thesis using run by (rule ingress_not_IPv4)
qed

lemma exEchoIn_facts:
  "EtherType (exEchoIn ty) = IPV4Number"
  "NextProtoID (IPv4 (exEchoIn ty)) = ICMPNumber"
  "SwapBytesUint32 (DstAddr (IPv4 (exEchoIn ty))) = 0xCB007101"
  "SwapBytesUint16 (Identifier (ICMP (exEchoIn ty))) = 1024"
  "Type (ICMP (exEchoIn ty)) = ty"
  "Code (ICMP (exEchoIn ty)) = 0"
  by (simp_all add: exEchoIn_def icmpPacket_def NewPacket_def const_defs)

lemma exDnsIn_facts:
  "EtherType exDnsIn = IPV4Number"
  "NextProtoID (IPv4 exDnsIn) = UDPNumber"
  "SwapBytesUint32 (DstAddr (IPv4 exDnsIn)) = 0xCB007101"
  "SwapBytesUint16 (udpDstPort (UDP exDnsIn)) = 1024"
  by (simp_all add: exDnsIn_def udpPacket_def NewPacket_def const_defs)

lemma exIdle_public_facts:
  "translationTable (PublicPort (exIdle kni)) protocol k = None"
  "translationTable (PrivatePort (exIdle kni)) protocol k = None"
  "Addr (Subnet (PublicPort (exIdle kni))) = 0xCB007101"
  "KNIName (PublicPort (exIdle kni)) = kni"
  "Index (PublicPort (exIdle kni)) = 0"
  by (simp_all add: exIdle_def exPublic_def exPrivate_def)











lemma allocNewPort_range:
  "allocNewPort cfg now pp protocol = Inr p \<Longrightarrow> portStart cfg \<le> p \<and> p < portEnd cfg"
  by (auto simp: allocNewPort_def find_Some_iff split: option.splits)

lemma allocateNewEgressConnection_owner:
  assumes alloc: "allocateNewEgressConnection cfg now pp protocol privEntry = Inr (pubEntry, pp')"
    and range: "portEnd cfg \<le> 65536"
  shows "translationTable (PublicPort pp') protocol pubEntry = Some privEntry"
    and "pmeAddr (portmap (PublicPort pp') protocol (unat (port pubEntry))) = addr pubEntry"
proof -
  from alloc obtain p where p: "allocNewPort cfg now pp protocol = Inr p"
    by (cases "allocNewPort cfg now pp protocol") (simp_all add: allocateNewEgressConnection_def)
  from allocNewPort_range [OF p] range have "p < 65536"
    by simp
  then have u: "unat (of_nat p :: u16) = p"
    by (simp add: unat_of_nat take_bit_nat_eq_self)
  from alloc p have pub: "pubEntry = \<lparr>addr = Addr (Subnet (PublicPort pp)), port = of_nat p\<rparr>"
    and pp': "PublicPort pp' =
                Store (setPortmap (PublicPort pp) protocol p
                         \<lparr>lastused = now, pmeAddr = Addr (Subnet (PublicPort pp)), finCount = 0,
                          terminationDirection = 0, static = False\<rparr>)
                  protocol pubEntry privEntry"
    by (auto simp: allocateNewEgressConnection_def Let_def)
  show "translationTable (PublicPort pp') protocol pubEntry = Some privEntry"
    by (simp add: pp' Store_def)
  show "pmeAddr (portmap (PublicPort pp') protocol (unat (port pubEntry))) = addr pubEntry"
    by (simp add: pp') (simp add: pub u Store_def portmap_setPortmap)
qed

section \<open>Ingress lookup miss\<close>

text \<open>
  Claim C1, as the code has it.  An ingress IPv4 packet whose key (destination address
  and destination port; for ICMP the identifier) is not in the public port's
  translation table of the packet's protocol.  A TCP or a UDP packet is dropped; the
  packet and the whole port pair, so both translation tables and every \<open>portmap\<close>
  slot, are as before, and nothing is sent: the miss creates no mapping and allocates
  no port.  An ICMP packet is first given to \<open>handleICMP\<close>: when it is addressed to
  the public port's own address and the port has a kernel interface, the disposition
  is kernel fallback, not drop; otherwise the packet is dropped, after an echo reply
  has been sent when it is an echo request to the port's own address (the process
  ends when no packet buffer is to be had for the reply).  In each case the port pair
  is as before.  And whatever the ingress packet, every entry of a translation table
  of the port pair the call leaves, of either port and any protocol, was an entry of
  that table before, with the same value: ingress creates no mapping.
\<close>

theorem ingress_miss_drops:
  "(EtherType pkt = IPV4Number \<and> NextProtoID (IPv4 pkt) = TCPNumber \<and>
    translationTable (PublicPort pp) TCPNumber
      \<lparr>addr = SwapBytesUint32 (DstAddr (IPv4 pkt)),
       port = SwapBytesUint16 (DstPort (TCP pkt))\<rparr> = None \<longrightarrow>
      PublicToPrivateTranslation cfg now buf pp pkt =
        Some \<lparr>disposition = dirDROP, packet = pkt, pair = pp, emitted = []\<rparr>) \<and>
   (EtherType pkt = IPV4Number \<and> NextProtoID (IPv4 pkt) = UDPNumber \<and>
    translationTable (PublicPort pp) UDPNumber
      \<lparr>addr = SwapBytesUint32 (DstAddr (IPv4 pkt)),
       port = SwapBytesUint16 (udpDstPort (UDP pkt))\<rparr> = None \<longrightarrow>
      PublicToPrivateTranslation cfg now buf pp pkt =
        Some \<lparr>disposition = dirDROP, packet = pkt, pair = pp, emitted = []\<rparr>) \<and>
   (EtherType pkt = IPV4Number \<and> NextProtoID (IPv4 pkt) = ICMPNumber \<and>
    translationTable (PublicPort pp) ICMPNumber
      \<lparr>addr = SwapBytesUint32 (DstAddr (IPv4 pkt)),
       port = SwapBytesUint16 (Identifier (ICMP pkt))\<rparr> = None \<longrightarrow>
      PublicToPrivateTranslation cfg now buf pp pkt =
        (if SwapBytesUint32 (DstAddr (IPv4 pkt)) = Addr (Subnet (PublicPort pp)) \<and>
            KNIName (PublicPort pp) \<noteq> []
         then Some \<lparr>disposition = dirKNI, packet = pkt, pair = pp, emitted = []\<rparr>
         else if SwapBytesUint32 (DstAddr (IPv4 pkt)) = Addr (Subnet (PublicPort pp)) \<and>
                 Type (ICMP pkt) = ICMPTypeEchoRequest \<and> Code (ICMP pkt) = 0
         then (if buf
               then Some \<lparr>disposition = dirDROP, packet = pkt, pair = pp,
                          emitted =
                            [SendPacket
                               (setIPv4ICMPChecksum
                                  ((swapAddrIPv4 pkt)
                                     \<lparr>ICMP := (ICMP (swapAddrIPv4 pkt))
                                                \<lparr>Type := ICMPTypeEchoResponse\<rparr>\<rparr>))
                               (Index (PublicPort pp))]\<rparr>
               else None)
         else Some \<lparr>disposition = dirDROP, packet = pkt, pair = pp, emitted = []\<rparr>)) \<and>
   (\<forall>r protocol k v.
      PublicToPrivateTranslation cfg now buf pp pkt = Some r \<longrightarrow>
        (translationTable (PublicPort (pair r)) protocol k = Some v \<longrightarrow>
           translationTable (PublicPort pp) protocol k = Some v) \<and>
        (translationTable (PrivatePort (pair r)) protocol k = Some v \<longrightarrow>
           translationTable (PrivatePort pp) protocol k = Some v))"
proof (intro conjI impI allI)
  assume "EtherType pkt = IPV4Number \<and> NextProtoID (IPv4 pkt) = TCPNumber \<and>
    translationTable (PublicPort pp) TCPNumber
      \<lparr>addr = SwapBytesUint32 (DstAddr (IPv4 pkt)),
       port = SwapBytesUint16 (DstPort (TCP pkt))\<rparr> = None"
  then show "PublicToPrivateTranslation cfg now buf pp pkt =
        Some \<lparr>disposition = dirDROP, packet = pkt, pair = pp, emitted = []\<rparr>"
    using ingress_miss_TCP by blast
next
  assume "EtherType pkt = IPV4Number \<and> NextProtoID (IPv4 pkt) = UDPNumber \<and>
    translationTable (PublicPort pp) UDPNumber
      \<lparr>addr = SwapBytesUint32 (DstAddr (IPv4 pkt)),
       port = SwapBytesUint16 (udpDstPort (UDP pkt))\<rparr> = None"
  then show "PublicToPrivateTranslation cfg now buf pp pkt =
        Some \<lparr>disposition = dirDROP, packet = pkt, pair = pp, emitted = []\<rparr>"
    using ingress_miss_UDP by blast
next
  assume a: "EtherType pkt = IPV4Number \<and> NextProtoID (IPv4 pkt) = ICMPNumber \<and>
    translationTable (PublicPort pp) ICMPNumber
      \<lparr>addr = SwapBytesUint32 (DstAddr (IPv4 pkt)),
       port = SwapBytesUint16 (Identifier (ICMP pkt))\<rparr> = None"
  show "PublicToPrivateTranslation cfg now buf pp pkt =
        (if SwapBytesUint32 (DstAddr (IPv4 pkt)) = Addr (Subnet (PublicPort pp)) \<and>
            KNIName (PublicPort pp) \<noteq> []
         then Some \<lparr>disposition = dirKNI, packet = pkt, pair = pp, emitted = []\<rparr>
         else if SwapBytesUint32 (DstAddr (IPv4 pkt)) = Addr (Subnet (PublicPort pp)) \<and>
                 Type (ICMP pkt) = ICMPTypeEchoRequest \<and> Code (ICMP pkt) = 0
         then (if buf
               then Some \<lparr>disposition = dirDROP, packet = pkt, pair = pp,
                          emitted =
                            [SendPacket
                               (setIPv4ICMPChecksum
                                  ((swapAddrIPv4 pkt)
                                     \<lparr>ICMP := (ICMP (swapAddrIPv4 pkt))
                                                \<lparr>Type := ICMPTypeEchoResponse\<rparr>\<rparr>))
                               (Index (PublicPort pp))]\<rparr>
               else None)
         else Some \<lparr>disposition = dirDROP, packet = pkt, pair = pp, emitted = []\<rparr>)"
    by (rule ingress_miss_ICMP) (simp_all add: a)
next
  fix r protocol k v
  assume run: "PublicToPrivateTranslation cfg now buf pp pkt = Some r"
  then have n: "noNewMappings pp (pair r)"
    by (rule ingress_noNewMappings)
  {
    assume "translationTable (PublicPort (pair r)) protocol k = Some v"
    with n show "translationTable (PublicPort pp) protocol k = Some v"
      by (simp add: noNewMappings_def)
  }
  {
    assume "translationTable (PrivatePort (pair r)) protocol k = Some v"
    with n show "translationTable (PrivatePort pp) protocol k = Some v"
      by (simp add: noNewMappings_def)
  }
qed

text \<open>
  While no connection exists: a TCP segment from 8.8.8.8, port 80, to the public port
  1024 is dropped, and so is a UDP datagram from 8.8.8.8, port 53; an ICMP echo
  request to the public address is answered and dropped without a kernel interface,
  and handed to the kernel interface \<open>kni0\<close> with it.
  And the segment, with ACK, on the established connection of the scenario is
  translated and leaves no entry for port 1025, which had none.
\<close>

theorem ingress_miss_drops_witness:
  "PublicToPrivateTranslation exParams 1000 True (exIdle []) (exIn 0x02) =
     Some \<lparr>disposition = dirDROP, packet = exIn 0x02, pair = exIdle [], emitted = []\<rparr> \<and>
   PublicToPrivateTranslation exParams 1000 True (exIdle []) exDnsIn =
     Some \<lparr>disposition = dirDROP, packet = exDnsIn, pair = exIdle [], emitted = []\<rparr> \<and>
   PublicToPrivateTranslation exParams 1000 True (exIdle []) (exEchoIn 8) =
     Some \<lparr>disposition = dirDROP, packet = exEchoIn 8, pair = exIdle [],
           emitted = [SendPacket
                        (setIPv4ICMPChecksum
                           ((swapAddrIPv4 (exEchoIn 8))
                              \<lparr>ICMP := (ICMP (swapAddrIPv4 (exEchoIn 8)))
                                         \<lparr>Type := ICMPTypeEchoResponse\<rparr>\<rparr>)) 0]\<rparr> \<and>
   PublicToPrivateTranslation exParams 1000 True (exIdle ''kni0'') (exEchoIn 8) =
     Some \<lparr>disposition = dirKNI, packet = exEchoIn 8, pair = exIdle ''kni0'', emitted = []\<rparr> \<and>
   (\<exists>r. PublicToPrivateTranslation exParams 1000 True (exFlow 990 0 0) (exIn 0x10) = Some r \<and>
        disposition r = dirSEND \<and>
        translationTable (PublicPort (pair r)) TCPNumber \<lparr>addr = 0xCB007101, port = 1025\<rparr> = None \<and>
        translationTable (PrivatePort (pair r)) TCPNumber \<lparr>addr = 0x0A000005, port = 4001\<rparr> = None)"
proof -
  from ingress_miss_drops [where pkt = "exIn 0x02" and pp = "exIdle []" and cfg = exParams
      and now = 1000 and buf = True, THEN conjunct1]
  have a: "PublicToPrivateTranslation exParams 1000 True (exIdle []) (exIn 0x02) =
     Some \<lparr>disposition = dirDROP, packet = exIn 0x02, pair = exIdle [], emitted = []\<rparr>"
    by (simp add: exIn_facts exIdle_public_facts)
  from ingress_miss_drops [where pkt = exDnsIn and pp = "exIdle []" and cfg = exParams
      and now = 1000 and buf = True, THEN conjunct2, THEN conjunct1]
  have u: "PublicToPrivateTranslation exParams 1000 True (exIdle []) exDnsIn =
     Some \<lparr>disposition = dirDROP, packet = exDnsIn, pair = exIdle [], emitted = []\<rparr>"
    by (simp add: exDnsIn_facts exIdle_public_facts)
  from ingress_miss_drops [where pkt = "exEchoIn 8" and pp = "exIdle []" and cfg = exParams
      and now = 1000 and buf = True, THEN conjunct2, THEN conjunct2, THEN conjunct1]
  have b: "PublicToPrivateTranslation exParams 1000 True (exIdle []) (exEchoIn 8) =
     Some \<lparr>disposition = dirDROP, packet = exEchoIn 8, pair = exIdle [],
           emitted = [SendPacket
                        (setIPv4ICMPChecksum
                           ((swapAddrIPv4 (exEchoIn 8))
                              \<lparr>ICMP := (ICMP (swapAddrIPv4 (exEchoIn 8)))
                                         \<lparr>Type := ICMPTypeEchoResponse\<rparr>\<rparr>)) 0]\<rparr>"
    by (simp add: exEchoIn_facts exIdle_public_facts ICMPTypeEchoRequest_def)
  from ingress_miss_drops [where pkt = "exEchoIn 8" and pp = "exIdle ''kni0''" and cfg = exParams
      and now = 1000 and buf = True, THEN conjunct2, THEN conjunct2, THEN conjunct1]
  have c: "PublicToPrivateTranslation exParams 1000 True (exIdle ''kni0'') (exEchoIn 8) =
     Some \<lparr>disposition = dirKNI, packet = exEchoIn 8, pair = exIdle ''kni0'', emitted = []\<rparr>"
    by (simp add: exEchoIn_facts exIdle_public_facts)
  have fresh: "static (portmap (PublicPort (exFlow 990 0 0)) (NextProtoID (IPv4 (exIn 0x10)))
                 (unat (port exPub))) \<or>
               1000 - lastused (portmap (PublicPort (exFlow 990 0 0))
                 (NextProtoID (IPv4 (exIn 0x10))) (unat (port exPub)))
                 \<le> connectionTimeout exParams"
    by (simp add: exIn_facts exFlow_facts exParams_def)
  have hit: "translationTable (PublicPort (exFlow 990 0 0)) (NextProtoID (IPv4 (exIn 0x10))) exPub
      = Some exPriv"
    by (simp add: exIn_facts exFlow_facts)
  have tcp: "TCPFlags (TCP (exIn 0x10)) = 0x10"
    by (simp add: exIn_def tcpPacket_def)
  have fin0: "finCount (portmap (PublicPort (refreshLastused (exFlow 990 0 0) TCPNumber 1024 1000))
     TCPNumber 1024) = 0"
    by (simp add: refreshLastused_def portmap_setPortmap exFlow_facts)
  have chk: "checkTCPTermination exParams 1000 (refreshLastused (exFlow 990 0 0) TCPNumber 1024 1000)
      (TCP (exIn 0x10)) 1024 pub2pri = refreshLastused (exFlow 990 0 0) TCPNumber 1024 1000"
    by (simp add: checkTCPTermination_def tcp fin0 TCPFlagFin_def TCPFlagRst_def TCPFlagAck_def)
  have arp: "arpTable (PrivatePort (exFlow 990 0 0)) (addr exPriv) = Some (MAC 2 0 0 0 0 5)"
    by (simp add: exFlow_def state_defs exPrivate_def exPriv_def)
  have nz: "addr exPriv \<noteq> 0"
    by (simp add: exPriv_def)
  from ingress_hit_fresh [where pkt = "exIn 0x10" and pp = "exFlow 990 0 0" and cfg = exParams
      and now = 1000 and buf = True and k = exPub and v = exPriv,
      OF exIn_facts(1) exIn_facts(2) exIn_facts(5) hit fresh]
  have "\<exists>r. PublicToPrivateTranslation exParams 1000 True (exFlow 990 0 0) (exIn 0x10) = Some r \<and>
            disposition r = dirSEND"
    by (simp add: pub2priRewrite_def nz exIn_facts exFlow_facts chk getMACForIP_def arp Let_def)
  then obtain r where run: "PublicToPrivateTranslation exParams 1000 True (exFlow 990 0 0)
      (exIn 0x10) = Some r" and send: "disposition r = dirSEND"
    by blast
  have before: "translationTable (PublicPort (exFlow 990 0 0)) TCPNumber
                  \<lparr>addr = 0xCB007101, port = 1025\<rparr> = None"
    "translationTable (PrivatePort (exFlow 990 0 0)) TCPNumber
                  \<lparr>addr = 0x0A000005, port = 4001\<rparr> = None"
    by (simp_all add: exFlow_def state_defs exPub_def exPriv_def exPublic_def exPrivate_def)
  note grow = ingress_miss_drops [where pkt = "exIn 0x10" and pp = "exFlow 990 0 0"
      and cfg = exParams and now = 1000 and buf = True, THEN conjunct2, THEN conjunct2,
      THEN conjunct2, rule_format, OF run]
  have pub: "translationTable (PublicPort (pair r)) TCPNumber \<lparr>addr = 0xCB007101, port = 1025\<rparr> = None"
  proof (cases "translationTable (PublicPort (pair r)) TCPNumber \<lparr>addr = 0xCB007101, port = 1025\<rparr>")
    case None
    then show ?thesis .
  next
    case (Some v)
    from grow [THEN conjunct1, rule_format, OF Some] before(1) show ?thesis
      by simp
  qed
  have pri: "translationTable (PrivatePort (pair r)) TCPNumber \<lparr>addr = 0x0A000005, port = 4001\<rparr> = None"
  proof (cases "translationTable (PrivatePort (pair r)) TCPNumber \<lparr>addr = 0x0A000005, port = 4001\<rparr>")
    case None
    then show ?thesis .
  next
    case (Some v)
    from grow [THEN conjunct2, rule_format, OF Some] before(2) show ?thesis
      by simp
  qed
  from a u b c run send pub pri show ?thesis
    by blast
qed

text \<open>
  Claim C1 as stated fails for ICMP when the public port has a kernel interface: an
  ICMP message to the public address whose key (203.0.113.1, identifier 1024) is in no
  table is not dropped; its disposition is kernel fallback.
\<close>

theorem ingress_icmp_miss_goes_to_kernel:
  "EtherType (exEchoIn 0) = IPV4Number \<and>
   NextProtoID (IPv4 (exEchoIn 0)) = ICMPNumber \<and>
   SwapBytesUint32 (DstAddr (IPv4 (exEchoIn 0))) = addr exPub \<and>
   SwapBytesUint16 (Identifier (ICMP (exEchoIn 0))) = port exPub \<and>
   translationTable (PublicPort (exIdle ''kni0'')) ICMPNumber exPub = None \<and>
   PublicToPrivateTranslation exParams 1000 True (exIdle ''kni0'') (exEchoIn 0) =
     Some \<lparr>disposition = dirKNI, packet = exEchoIn 0, pair = exIdle ''kni0'', emitted = []\<rparr>"
proof -
  have miss: "translationTable (PublicPort (exIdle ''kni0'')) ICMPNumber
      \<lparr>addr = SwapBytesUint32 (DstAddr (IPv4 (exEchoIn 0))),
       port = SwapBytesUint16 (Identifier (ICMP (exEchoIn 0)))\<rparr> = None"
    by (simp add: exIdle_public_facts)
  from ingress_miss_ICMP [OF exEchoIn_facts(1) exEchoIn_facts(2) miss, where cfg = exParams
      and now = 1000 and buf = True]
  have "PublicToPrivateTranslation exParams 1000 True (exIdle ''kni0'') (exEchoIn 0) =
     Some \<lparr>disposition = dirKNI, packet = exEchoIn 0, pair = exIdle ''kni0'', emitted = []\<rparr>"
    by (simp add: exEchoIn_facts exIdle_public_facts)
  then show ?thesis
    by (simp add: exEchoIn_facts exIdle_public_facts exPub_def)
qed

section \<open>TCP termination tracking\<close>

text \<open>
  Claim C3.  A TCP segment with the FIN flag, seen by \<open>checkTCPTermination\<close> on
  public port \<open>p\<close> from direction \<open>d\<close>: when \<open>finCount\<close> is 0 it becomes 1 and
  \<open>d\<close> is recorded; when \<open>finCount\<close> is 1 and the recorded direction is the
  opposite of \<open>d\<close> (its bitwise complement: \<open>pub2pri\<close> and \<open>pri2pub\<close> are each
  other's complement) it becomes 2; a second FIN from the recorded direction itself
  changes nothing at all.
\<close>

theorem checkTCPTermination_FIN:
  assumes "TCPFlags hdr AND TCPFlagFin \<noteq> 0"
  shows "pub2pri = NOT pri2pub \<and> pri2pub = NOT pub2pri \<and>
        (let pme = portmap (PublicPort pp) TCPNumber p;
             pme' = portmap (PublicPort (checkTCPTermination cfg now pp hdr p d)) TCPNumber p in
         (finCount pme = 0 \<longrightarrow> finCount pme' = 1 \<and> terminationDirection pme' = d) \<and>
         (finCount pme = 1 \<and> terminationDirection pme = NOT d \<longrightarrow>
            finCount pme' = 2 \<and> terminationDirection pme' = NOT d) \<and>
         (finCount pme = 1 \<and> terminationDirection pme = d \<longrightarrow>
            checkTCPTermination cfg now pp hdr p d = pp))"
  using assms not_self[of d]
  by (simp add: checkTCPTermination_def Let_def portmap_setPortmap pub2pri_def pri2pub_def)

text \<open>
  The connection of the scenario: a first FIN from the private side, then a FIN from
  the public side, and a repeated FIN from the private side.
\<close>

theorem checkTCPTermination_FIN_witness:
  "finCount (portmap (PublicPort (checkTCPTermination exParams 1000 (exFlow 990 0 0)
       (exSegment 0x11) 1024 pri2pub)) TCPNumber 1024) = 1 \<and>
   terminationDirection (portmap (PublicPort (checkTCPTermination exParams 1000 (exFlow 990 0 0)
       (exSegment 0x11) 1024 pri2pub)) TCPNumber 1024) = pri2pub \<and>
   finCount (portmap (PublicPort (checkTCPTermination exParams 1000 (exFlow 990 1 pri2pub)
       (exSegment 0x11) 1024 pub2pri)) TCPNumber 1024) = 2 \<and>
   checkTCPTermination exParams 1000 (exFlow 990 1 pri2pub) (exSegment 0x11) 1024 pri2pub =
     exFlow 990 1 pri2pub"
proof -
  have fin: "TCPFlags (exSegment 0x11) AND TCPFlagFin \<noteq> 0"
    by (simp add: exSegment_def TCPFlagFin_def)
  note first = checkTCPTermination_FIN [OF fin, where pp = "exFlow 990 0 0" and p = 1024
      and cfg = exParams and now = 1000 and d = pri2pub]
  note opposite = checkTCPTermination_FIN [OF fin, where pp = "exFlow 990 1 pri2pub" and p = 1024
      and cfg = exParams and now = 1000 and d = pub2pri]
  note same = checkTCPTermination_FIN [OF fin, where pp = "exFlow 990 1 pri2pub" and p = 1024
      and cfg = exParams and now = 1000 and d = pri2pub]
  have s0: "finCount (portmap (PublicPort (exFlow 990 0 0)) TCPNumber 1024) = 0"
    by (simp add: exFlow_def state_defs)
  have s1: "finCount (portmap (PublicPort (exFlow 990 1 pri2pub)) TCPNumber 1024) = 1"
       "terminationDirection (portmap (PublicPort (exFlow 990 1 pri2pub)) TCPNumber 1024) = pri2pub"
    by (simp_all add: exFlow_def state_defs)
  have n: "NOT pub2pri = pri2pub"
    by (simp add: pub2pri_def pri2pub_def)
  from first s0 have a: "finCount (portmap (PublicPort (checkTCPTermination exParams 1000 (exFlow 990 0 0)
       (exSegment 0x11) 1024 pri2pub)) TCPNumber 1024) = 1 \<and>
   terminationDirection (portmap (PublicPort (checkTCPTermination exParams 1000 (exFlow 990 0 0)
       (exSegment 0x11) 1024 pri2pub)) TCPNumber 1024) = pri2pub"
    by (simp add: Let_def)
  from opposite s1 n have b: "finCount (portmap (PublicPort (checkTCPTermination exParams 1000 (exFlow 990 1 pri2pub)
       (exSegment 0x11) 1024 pub2pri)) TCPNumber 1024) = 2"
    by (simp add: Let_def)
  from same s1 have c: "checkTCPTermination exParams 1000 (exFlow 990 1 pri2pub) (exSegment 0x11) 1024 pri2pub =
     exFlow 990 1 pri2pub"
    by (simp add: Let_def)
  from a b c show ?thesis by simp
qed

text \<open>
  Claim C4.  A TCP segment with ACK and neither FIN nor RST, seen when \<open>finCount\<close>
  of port \<open>p\<close> is 2: the public entry of the port (keyed by the slot's address and
  \<open>p\<close>) and the private entry it mapped to are gone from the translation tables, the
  slot is the zero slot except that \<open>lastused\<close> is \<open>now\<close> plus \<open>portReuseTimeout\<close>
  minus \<open>connectionTimeout\<close>, and the allocator does not hand out \<open>p\<close> at any
  time \<open>now'\<close> up to \<open>portReuseTimeout\<close> after \<open>now\<close>.  With any other
  \<open>finCount\<close>, in particular below 2, the port pair is unchanged.
\<close>

theorem checkTCPTermination_ACK:
  assumes fin: "TCPFlags hdr AND TCPFlagFin = 0"
    and rst: "TCPFlags hdr AND TCPFlagRst = 0"
    and ack: "TCPFlags hdr AND TCPFlagAck \<noteq> 0"
  shows "(let pme = portmap (PublicPort pp) TCPNumber p;
              pubKey = \<lparr>addr = pmeAddr pme, port = of_nat p\<rparr>;
              pp' = checkTCPTermination cfg now pp hdr p d in
          (finCount pme = 2 \<longrightarrow>
             translationTable (PublicPort pp') TCPNumber pubKey = None \<and>
             (\<forall>pri. translationTable (PublicPort pp) TCPNumber pubKey = Some pri \<longrightarrow>
                    translationTable (PrivatePort pp') TCPNumber pri = None) \<and>
             portmap (PublicPort pp') TCPNumber p =
               zeroPortMapEntry\<lparr>lastused := now + (portReuseTimeout cfg - connectionTimeout cfg)\<rparr> \<and>
             (\<forall>now'. now' - now \<le> portReuseTimeout cfg \<longrightarrow>
                     allocNewPort cfg now' pp' TCPNumber \<noteq> Inr p)) \<and>
          (finCount pme \<noteq> 2 \<longrightarrow> pp' = pp))"
proof -
  let ?pme = "portmap (PublicPort pp) TCPNumber p"
  let ?del = "deleteOldConnection pp TCPNumber p"
  let ?new = "zeroPortMapEntry\<lparr>lastused := now + (portReuseTimeout cfg - connectionTimeout cfg)\<rparr>"
  let ?pp' = "checkTCPTermination cfg now pp hdr p d"
  have other: "finCount ?pme \<noteq> 2 \<Longrightarrow> ?pp' = pp"
    using fin rst ack by (simp add: checkTCPTermination_def)
  have two: "finCount ?pme = 2 \<Longrightarrow>
      ?pp' = ?del\<lparr>PublicPort := setPortmap (PublicPort ?del) TCPNumber p ?new\<rparr>"
    using fin rst ack
    by (simp add: checkTCPTermination_def Let_def deleteOldConnection_portmap)
  have slot: "finCount ?pme = 2 \<Longrightarrow> portmap (PublicPort ?pp') TCPNumber p = ?new"
    by (simp add: two portmap_setPortmap)
  have busy: "finCount ?pme = 2 \<Longrightarrow> now' - now \<le> portReuseTimeout cfg \<Longrightarrow>
      allocNewPort cfg now' ?pp' TCPNumber \<noteq> Inr p" for now'
  proof
    assume a: "finCount ?pme = 2" "now' - now \<le> portReuseTimeout cfg"
      and "allocNewPort cfg now' ?pp' TCPNumber = Inr p"
    then have "portFree cfg now' (portmap (PublicPort ?pp') TCPNumber p)"
      by (simp add: allocNewPort_free)
    with a show False
      by (simp add: slot portFree_def)
  qed
  show ?thesis
    unfolding Let_def
    using other busy slot
    by (auto simp: two deleteOldConnection_public deleteOldConnection_private)
qed

text \<open>
  After both FINs the ACK removes the connection of the scenario; one second later
  (the reuse timeout of \<open>exParams\<close>) port 1024 is still not handed out.  After one
  FIN only, the ACK changes nothing.
\<close>

theorem checkTCPTermination_ACK_witness:
  "translationTable (PublicPort (checkTCPTermination exParams 1000 (exFlow 990 2 pri2pub)
       (exSegment 0x10) 1024 pub2pri)) TCPNumber exPub = None \<and>
   translationTable (PrivatePort (checkTCPTermination exParams 1000 (exFlow 990 2 pri2pub)
       (exSegment 0x10) 1024 pub2pri)) TCPNumber exPriv = None \<and>
   lastused (portmap (PublicPort (checkTCPTermination exParams 1000 (exFlow 990 2 pri2pub)
       (exSegment 0x10) 1024 pub2pri)) TCPNumber 1024) = 941 \<and>
   allocNewPort exParams 1001 (checkTCPTermination exParams 1000 (exFlow 990 2 pri2pub)
       (exSegment 0x10) 1024 pub2pri) TCPNumber \<noteq> Inr 1024 \<and>
   checkTCPTermination exParams 1000 (exFlow 990 1 pri2pub) (exSegment 0x10) 1024 pub2pri =
     exFlow 990 1 pri2pub"
proof -
  have fin: "TCPFlags (exSegment 0x10) AND TCPFlagFin = 0"
    and rst: "TCPFlags (exSegment 0x10) AND TCPFlagRst = 0"
    and ack: "TCPFlags (exSegment 0x10) AND TCPFlagAck \<noteq> 0"
    by (simp_all add: exSegment_def TCPFlagFin_def TCPFlagRst_def TCPFlagAck_def)
  note closed = checkTCPTermination_ACK [OF fin rst ack, where pp = "exFlow 990 2 pri2pub"
      and p = 1024 and cfg = exParams and now = 1000 and d = pub2pri]
  note half = checkTCPTermination_ACK [OF fin rst ack, where pp = "exFlow 990 1 pri2pub"
      and p = 1024 and cfg = exParams and now = 1000 and d = pub2pri]
  have s2: "finCount (portmap (PublicPort (exFlow 990 2 pri2pub)) TCPNumber 1024) = 2"
       "pmeAddr (portmap (PublicPort (exFlow 990 2 pri2pub)) TCPNumber 1024) = addr exPub"
       "translationTable (PublicPort (exFlow 990 2 pri2pub)) TCPNumber exPub = Some exPriv"
       "exPub = \<lparr>addr = addr exPub, port = of_nat 1024\<rparr>"
    by (simp_all add: exFlow_def state_defs exPub_def)
  have s1: "finCount (portmap (PublicPort (exFlow 990 1 pri2pub)) TCPNumber 1024) \<noteq> 2"
    by (simp add: exFlow_def state_defs)
  have t: "connectionTimeout exParams = 60" "portReuseTimeout exParams = 1"
    by (simp_all add: exParams_def)
  from half s1 have c: "checkTCPTermination exParams 1000 (exFlow 990 1 pri2pub) (exSegment 0x10) 1024 pub2pri =
     exFlow 990 1 pri2pub"
    by (simp add: Let_def)
  from closed s2 have a: "translationTable (PublicPort (checkTCPTermination exParams 1000 (exFlow 990 2 pri2pub)
       (exSegment 0x10) 1024 pub2pri)) TCPNumber exPub = None"
    and b: "translationTable (PrivatePort (checkTCPTermination exParams 1000 (exFlow 990 2 pri2pub)
       (exSegment 0x10) 1024 pub2pri)) TCPNumber exPriv = None"
    and l: "portmap (PublicPort (checkTCPTermination exParams 1000 (exFlow 990 2 pri2pub)
       (exSegment 0x10) 1024 pub2pri)) TCPNumber 1024 = zeroPortMapEntry\<lparr>lastused := 1000 + (1 - 60)\<rparr>"
    and f: "allocNewPort exParams 1001 (checkTCPTermination exParams 1000 (exFlow 990 2 pri2pub)
       (exSegment 0x10) 1024 pub2pri) TCPNumber \<noteq> Inr 1024"
    by (simp_all add: Let_def t)
  from a b l f c show ?thesis by simp
qed




section \<open>Aging on a lookup hit\<close>




section \<open>ARP requests\<close>

text \<open>
  Claim C6.  An ARP request received on a port without a kernel interface.  When its
  target protocol address is the port's configured address (the comparison the code
  makes, on the words read from the wire) and its target hardware address is all
  zeros, and a packet buffer is to be had, \<open>handleARP\<close> sends exactly one packet, on
  the port's own index: an ARP reply whose sender hardware address is the port's
  configured MAC, whose sender protocol address is the request's target protocol
  address, and whose target addresses are the request's sender addresses; the request
  itself is dropped and the port is unchanged.  When the target protocol address is
  another one, or the target hardware address is not zero, nothing is sent: the request
  is dropped with a warning.  For an ARP packet both translation functions return
  what \<open>handleARP\<close> returned, on their own port of the pair.
\<close>

theorem handleARP_request:
  assumes req: "SwapBytesUint16 (Operation (ARP pkt)) = ARPRequest"
    and nokni: "KNIName prt = []"
  shows "(ArrayToIPv4 (TPA (ARP pkt)) = SwapBytesUint32 (Addr (Subnet prt)) \<and>
          THA (ARP pkt) = zeroMAC \<and> buf \<longrightarrow>
            (\<exists>reply. handleARP buf prt pkt =
                       Some (dirDROP, prt, [SendPacket reply (Index prt)]) \<and>
                     EtherType reply = ARPNumber \<and>
                     Operation (ARP reply) = SwapBytesUint16 ARPReply \<and>
                     SHA (ARP reply) = SrcMACAddress prt \<and>
                     SPA (ARP reply) = TPA (ARP pkt) \<and>
                     THA (ARP reply) = SHA (ARP pkt) \<and>
                     TPA (ARP reply) = SPA (ARP pkt) \<and>
                     SAddr (Ether reply) = SrcMACAddress prt \<and>
                     DAddr (Ether reply) = SHA (ARP pkt))) \<and>
         (ArrayToIPv4 (TPA (ARP pkt)) \<noteq> SwapBytesUint32 (Addr (Subnet prt)) \<or>
          THA (ARP pkt) \<noteq> zeroMAC \<longrightarrow>
            (\<exists>w. handleARP buf prt pkt = Some (dirDROP, prt, [Warning w]))) \<and>
         (EtherType pkt = ARPNumber \<longrightarrow>
            PublicToPrivateTranslation cfg now buf (pp\<lparr>PublicPort := prt\<rparr>) pkt =
              (case handleARP buf prt pkt of
                 None \<Rightarrow> None
               | Some (d, prt1, ev) \<Rightarrow>
                   Some \<lparr>disposition = d, packet = pkt, pair = pp\<lparr>PublicPort := prt1\<rparr>,
                         emitted = ev\<rparr>) \<and>
            PrivateToPublicTranslation cfg now buf (pp\<lparr>PrivatePort := prt\<rparr>) pkt =
              (case handleARP buf prt pkt of
                 None \<Rightarrow> None
               | Some (d, prt1, ev) \<Rightarrow>
                   Some \<lparr>disposition = d, packet = pkt, pair = pp\<lparr>PrivatePort := prt1\<rparr>,
                         emitted = ev\<rparr>))"
proof (intro conjI impI)
  assume a: "ArrayToIPv4 (TPA (ARP pkt)) = SwapBytesUint32 (Addr (Subnet prt)) \<and>
          THA (ARP pkt) = zeroMAC \<and> buf"
  let ?answer0 = "InitARPReplyPacket NewPacket (SrcMACAddress prt) (SHA (ARP pkt))
                    (ArrayToIPv4 (TPA (ARP pkt))) (ArrayToIPv4 (SPA (ARP pkt)))"
  let ?reply = "case VLAN pkt of None \<Rightarrow> ?answer0
                | Some vlan \<Rightarrow> AddVLANTag ?answer0 (SwapBytesUint16 (TCI vlan))"
  from a req nokni
  have run: "handleARP buf prt pkt = Some (dirDROP, prt, [SendPacket ?reply (Index prt)])"
    by (simp add: handleARP_def Let_def ArrayToIPv4_cases split: option.split)
  have arp: "ARP ?reply = ARP ?answer0" "Ether ?reply = Ether ?answer0"
      "EtherType ?reply = EtherType ?answer0"
    by (simp_all add: AddVLANTag_def split: option.split)
  have fields: "EtherType ?reply = ARPNumber \<and>
                     Operation (ARP ?reply) = SwapBytesUint16 ARPReply \<and>
                     SHA (ARP ?reply) = SrcMACAddress prt \<and>
                     SPA (ARP ?reply) = TPA (ARP pkt) \<and>
                     THA (ARP ?reply) = SHA (ARP pkt) \<and>
                     TPA (ARP ?reply) = SPA (ARP pkt) \<and>
                     SAddr (Ether ?reply) = SrcMACAddress prt \<and>
                     DAddr (Ether ?reply) = SHA (ARP pkt)"
    unfolding arp
    by (simp add: InitARPReplyPacket_def IPv4ToBytes_ArrayToIPv4)
  from run fields
  show "\<exists>reply. handleARP buf prt pkt =
                       Some (dirDROP, prt, [SendPacket reply (Index prt)]) \<and>
                     EtherType reply = ARPNumber \<and>
                     Operation (ARP reply) = SwapBytesUint16 ARPReply \<and>
                     SHA (ARP reply) = SrcMACAddress prt \<and>
                     SPA (ARP reply) = TPA (ARP pkt) \<and>
                     THA (ARP reply) = SHA (ARP pkt) \<and>
                     TPA (ARP reply) = SPA (ARP pkt) \<and>
                     SAddr (Ether reply) = SrcMACAddress prt \<and>
                     DAddr (Ether reply) = SHA (ARP pkt)"
    by blast
next
  assume "ArrayToIPv4 (TPA (ARP pkt)) \<noteq> SwapBytesUint32 (Addr (Subnet prt)) \<or>
          THA (ARP pkt) \<noteq> zeroMAC"
  with req nokni show "\<exists>w. handleARP buf prt pkt = Some (dirDROP, prt, [Warning w])"
    by (auto simp: handleARP_def Let_def ArrayToIPv4_cases)
next
  assume "EtherType pkt = ARPNumber"
  then show "PublicToPrivateTranslation cfg now buf (pp\<lparr>PublicPort := prt\<rparr>) pkt =
              (case handleARP buf prt pkt of
                 None \<Rightarrow> None
               | Some (d, prt1, ev) \<Rightarrow>
                   Some \<lparr>disposition = d, packet = pkt, pair = pp\<lparr>PublicPort := prt1\<rparr>,
                         emitted = ev\<rparr>)"
    and "PrivateToPublicTranslation cfg now buf (pp\<lparr>PrivatePort := prt\<rparr>) pkt =
              (case handleARP buf prt pkt of
                 None \<Rightarrow> None
               | Some (d, prt1, ev) \<Rightarrow>
                   Some \<lparr>disposition = d, packet = pkt, pair = pp\<lparr>PrivatePort := prt1\<rparr>,
                         emitted = ev\<rparr>)"
    by (rule ARP_dispatch)+
qed

text \<open>
  203.0.113.7 asks for 203.0.113.1, the address of the public port; then for
  203.0.113.2; then for 203.0.113.1 with a target hardware address filled in.
\<close>

theorem handleARP_request_witness:
  "(\<exists>reply. handleARP True (exPublic []) (arpRequestPacket (IPv4Bytes 203 0 113 1) zeroMAC) =
              Some (dirDROP, exPublic [], [SendPacket reply 0]) \<and>
            Operation (ARP reply) = SwapBytesUint16 ARPReply \<and>
            SHA (ARP reply) = MAC 2 0 0 0 0 1 \<and>
            SPA (ARP reply) = IPv4Bytes 203 0 113 1 \<and>
            THA (ARP reply) = MAC 2 0 0 0 0 7 \<and>
            TPA (ARP reply) = IPv4Bytes 203 0 113 7) \<and>
   (\<exists>w. handleARP True (exPublic []) (arpRequestPacket (IPv4Bytes 203 0 113 2) zeroMAC) =
          Some (dirDROP, exPublic [], [Warning w])) \<and>
   (\<exists>w. handleARP True (exPublic []) (arpRequestPacket (IPv4Bytes 203 0 113 1) (MAC 0 0 0 0 0 1)) =
          Some (dirDROP, exPublic [], [Warning w])) \<and>
   (\<exists>w. PublicToPrivateTranslation exParams 1000 True (exIdle [])
          (arpRequestPacket (IPv4Bytes 203 0 113 2) zeroMAC) =
          Some \<lparr>disposition = dirDROP, packet = arpRequestPacket (IPv4Bytes 203 0 113 2) zeroMAC,
                pair = exIdle [], emitted = [Warning w]\<rparr>)"
proof -
  have req: "SwapBytesUint16 (Operation (ARP (arpRequestPacket tpa tha))) = ARPRequest" for tpa tha
    by (simp add: arpRequestPacket_def SwapBytesUint16_def ARPRequest_def)
  have nokni: "KNIName (exPublic []) = []"
    by (simp add: exPublic_def)
  have me: "ArrayToIPv4 (TPA (ARP (arpRequestPacket (IPv4Bytes 203 0 113 1) tha))) =
              SwapBytesUint32 (Addr (Subnet (exPublic [])))" for tha
    by (simp add: arpRequestPacket_def exPublic_def BytesToIPv4_def SwapBytesUint32_def)
  have other: "ArrayToIPv4 (TPA (ARP (arpRequestPacket (IPv4Bytes 203 0 113 2) tha))) \<noteq>
              SwapBytesUint32 (Addr (Subnet (exPublic [])))" for tha
    by (simp add: arpRequestPacket_def exPublic_def BytesToIPv4_def SwapBytesUint32_def)
  have blank: "THA (ARP (arpRequestPacket tpa zeroMAC)) = zeroMAC" for tpa
    by (simp add: arpRequestPacket_def)
  have filled: "THA (ARP (arpRequestPacket tpa (MAC 0 0 0 0 0 1))) \<noteq> zeroMAC" for tpa
    by (simp add: arpRequestPacket_def zeroMAC_def)
  have f: "SrcMACAddress (exPublic []) = MAC 2 0 0 0 0 1" "Index (exPublic []) = 0"
      "SHA (ARP (arpRequestPacket tpa tha)) = MAC 2 0 0 0 0 7"
      "SPA (ARP (arpRequestPacket tpa tha)) = IPv4Bytes 203 0 113 7"
      "TPA (ARP (arpRequestPacket tpa tha)) = tpa" for tpa tha
    by (simp_all add: exPublic_def arpRequestPacket_def)
  note answered = handleARP_request [OF req nokni, where buf = True
      and ?tpa1 = "IPv4Bytes 203 0 113 1" and ?tha1 = zeroMAC, THEN conjunct1]
  note mismatch = handleARP_request [OF req nokni, where buf = True
      and ?tpa1 = "IPv4Bytes 203 0 113 2" and ?tha1 = zeroMAC, THEN conjunct2, THEN conjunct1]
  note nonzero = handleARP_request [OF req nokni, where buf = True
      and ?tpa1 = "IPv4Bytes 203 0 113 1" and ?tha1 = "MAC 0 0 0 0 0 1", THEN conjunct2,
      THEN conjunct1]
  note whole = handleARP_request [OF req nokni, where buf = True
      and ?tpa1 = "IPv4Bytes 203 0 113 2" and ?tha1 = zeroMAC and pp = "exIdle []"
      and cfg = exParams and now = 1000, THEN conjunct2, THEN conjunct2]
  from answered me blank have a: "\<exists>reply. handleARP True (exPublic []) (arpRequestPacket (IPv4Bytes 203 0 113 1) zeroMAC) =
              Some (dirDROP, exPublic [], [SendPacket reply 0]) \<and>
            Operation (ARP reply) = SwapBytesUint16 ARPReply \<and>
            SHA (ARP reply) = MAC 2 0 0 0 0 1 \<and>
            SPA (ARP reply) = IPv4Bytes 203 0 113 1 \<and>
            THA (ARP reply) = MAC 2 0 0 0 0 7 \<and>
            TPA (ARP reply) = IPv4Bytes 203 0 113 7"
    by (auto simp: f)
  from mismatch other have b: "\<exists>w. handleARP True (exPublic []) (arpRequestPacket (IPv4Bytes 203 0 113 2) zeroMAC) =
          Some (dirDROP, exPublic [], [Warning w])"
    by blast
  from nonzero filled have c: "\<exists>w. handleARP True (exPublic []) (arpRequestPacket (IPv4Bytes 203 0 113 1) (MAC 0 0 0 0 0 1)) =
          Some (dirDROP, exPublic [], [Warning w])"
    by blast
  have et: "EtherType (arpRequestPacket tpa tha) = ARPNumber" for tpa tha
    by (simp add: arpRequestPacket_def)
  have idle: "(exIdle [])\<lparr>PublicPort := exPublic []\<rparr> = exIdle []"
    by (simp add: exIdle_def)
  from b obtain w where w: "handleARP True (exPublic [])
      (arpRequestPacket (IPv4Bytes 203 0 113 2) zeroMAC) = Some (dirDROP, exPublic [], [Warning w])"
    by blast
  from whole et have "PublicToPrivateTranslation exParams 1000 True (exIdle [])
          (arpRequestPacket (IPv4Bytes 203 0 113 2) zeroMAC) =
          Some \<lparr>disposition = dirDROP, packet = arpRequestPacket (IPv4Bytes 203 0 113 2) zeroMAC,
                pair = exIdle [], emitted = [Warning w]\<rparr>"
    by (simp add: idle w)
  then have e: "\<exists>w. PublicToPrivateTranslation exParams 1000 True (exIdle [])
          (arpRequestPacket (IPv4Bytes 203 0 113 2) zeroMAC) =
          Some \<lparr>disposition = dirDROP, packet = arpRequestPacket (IPv4Bytes 203 0 113 2) zeroMAC,
                pair = exIdle [], emitted = [Warning w]\<rparr>"
    by blast
  from a b c e show ?thesis by blast
qed

section \<open>ICMP echo\<close>

text \<open>
  Claim C7.  An ICMP packet whose IPv4 destination is the port's own address and
  which is not handed to the kernel interface (there is none, or the call comes from
  egress with no key, or the key has a live entry).  An echo request with code 0, when
  a packet buffer is to be had: \<open>handleICMP\<close> sends exactly one packet on the port's
  index, the copy of the request with source and destination addresses swapped, type
  echo reply and the ICMP checksum recomputed, and returns drop for the request.  A
  type other than echo request: \<open>handleICMP\<close> returns send and sends nothing, so
  the packet goes on to translation.  When \<open>handleICMP\<close> returns drop for an ICMP
  packet, the translation function that called it returns drop as well, with the port
  pair unchanged.
\<close>

theorem handleICMP_echo:
  assumes self: "SwapBytesUint32 (DstAddr (IPv4 pkt)) = Addr (Subnet prt)"
    and nokni: "\<not> (KNIName prt \<noteq> [] \<and>
                   (case key of
                      None \<Rightarrow> False
                    | Some k \<Rightarrow>
                        translationTable prt ICMPNumber k = None \<or>
                        now - lastused (portmap prt ICMPNumber (unat (port k)))
                          > connectionTimeout cfg))"
  shows "(Type (ICMP pkt) = ICMPTypeEchoRequest \<and> Code (ICMP pkt) = 0 \<and> buf \<longrightarrow>
            (\<exists>reply. handleICMP cfg now buf prt pkt key =
                       Some (dirDROP, [SendPacket reply (Index prt)]) \<and>
                     SrcAddr (IPv4 reply) = DstAddr (IPv4 pkt) \<and>
                     DstAddr (IPv4 reply) = SrcAddr (IPv4 pkt) \<and>
                     SAddr (Ether reply) = DAddr (Ether pkt) \<and>
                     DAddr (Ether reply) = SAddr (Ether pkt) \<and>
                     Type (ICMP reply) = ICMPTypeEchoResponse \<and>
                     Code (ICMP reply) = Code (ICMP pkt) \<and>
                     Identifier (ICMP reply) = Identifier (ICMP pkt) \<and>
                     Checksum reply = RecomputedICMP)) \<and>
         (Type (ICMP pkt) \<noteq> ICMPTypeEchoRequest \<longrightarrow>
            handleICMP cfg now buf prt pkt key = Some (dirSEND, [])) \<and>
         (EtherType pkt = IPV4Number \<and> NextProtoID (IPv4 pkt) = ICMPNumber \<longrightarrow>
            (handleICMP cfg now buf prt pkt
               (Some \<lparr>addr = SwapBytesUint32 (DstAddr (IPv4 pkt)),
                      port = SwapBytesUint16 (Identifier (ICMP pkt))\<rparr>) = Some (dirDROP, ev) \<longrightarrow>
             PublicToPrivateTranslation cfg now buf (pp\<lparr>PublicPort := prt\<rparr>) pkt =
               Some \<lparr>disposition = dirDROP, packet = pkt, pair = pp\<lparr>PublicPort := prt\<rparr>,
                     emitted = ev\<rparr>) \<and>
            (handleICMP cfg now buf prt pkt None = Some (dirDROP, ev) \<longrightarrow>
             PrivateToPublicTranslation cfg now buf (pp\<lparr>PrivatePort := prt\<rparr>) pkt =
               Some \<lparr>disposition = dirDROP, packet = pkt, pair = pp\<lparr>PrivatePort := prt\<rparr>,
                     emitted = ev\<rparr>))"
proof (intro conjI impI)
  assume "Type (ICMP pkt) = ICMPTypeEchoRequest \<and> Code (ICMP pkt) = 0 \<and> buf"
  with self nokni
  have "handleICMP cfg now buf prt pkt key =
          Some (dirDROP,
                [SendPacket (setIPv4ICMPChecksum
                               ((swapAddrIPv4 pkt)
                                  \<lparr>ICMP := (ICMP (swapAddrIPv4 pkt))\<lparr>Type := ICMPTypeEchoResponse\<rparr>\<rparr>))
                   (Index prt)])"
    by (simp add: handleICMP_def Let_def)
  then show "\<exists>reply. handleICMP cfg now buf prt pkt key =
                       Some (dirDROP, [SendPacket reply (Index prt)]) \<and>
                     SrcAddr (IPv4 reply) = DstAddr (IPv4 pkt) \<and>
                     DstAddr (IPv4 reply) = SrcAddr (IPv4 pkt) \<and>
                     SAddr (Ether reply) = DAddr (Ether pkt) \<and>
                     DAddr (Ether reply) = SAddr (Ether pkt) \<and>
                     Type (ICMP reply) = ICMPTypeEchoResponse \<and>
                     Code (ICMP reply) = Code (ICMP pkt) \<and>
                     Identifier (ICMP reply) = Identifier (ICMP pkt) \<and>
                     Checksum reply = RecomputedICMP"
    by (simp add: setIPv4ICMPChecksum_def swapAddrIPv4_def)
next
  assume "Type (ICMP pkt) \<noteq> ICMPTypeEchoRequest"
  with self nokni show "handleICMP cfg now buf prt pkt key = Some (dirSEND, [])"
    by (simp add: handleICMP_def Let_def)
next
  assume a: "EtherType pkt = IPV4Number \<and> NextProtoID (IPv4 pkt) = ICMPNumber"
    and h: "handleICMP cfg now buf prt pkt
               (Some \<lparr>addr = SwapBytesUint32 (DstAddr (IPv4 pkt)),
                      port = SwapBytesUint16 (Identifier (ICMP pkt))\<rparr>) = Some (dirDROP, ev)"
  from a h show "PublicToPrivateTranslation cfg now buf (pp\<lparr>PublicPort := prt\<rparr>) pkt =
               Some \<lparr>disposition = dirDROP, packet = pkt, pair = pp\<lparr>PublicPort := prt\<rparr>,
                     emitted = ev\<rparr>"
    by (intro ingress_ICMP_handled) simp_all
next
  assume a: "EtherType pkt = IPV4Number \<and> NextProtoID (IPv4 pkt) = ICMPNumber"
    and h: "handleICMP cfg now buf prt pkt None = Some (dirDROP, ev)"
  from a h show "PrivateToPublicTranslation cfg now buf (pp\<lparr>PrivatePort := prt\<rparr>) pkt =
               Some \<lparr>disposition = dirDROP, packet = pkt, pair = pp\<lparr>PrivatePort := prt\<rparr>,
                     emitted = ev\<rparr>"
    by (intro egress_ICMP_handled) simp_all
qed

text \<open>
  8.8.8.8 pings the public address 203.0.113.1; then sends it a timestamp request
  (type 13).
\<close>

theorem handleICMP_echo_witness:
  "(\<exists>reply. handleICMP exParams 1000 True (exPublic [])
              (icmpPacket 0x08080808 0xCB007101 8 7) (Some \<lparr>addr = 0xCB007101, port = 7\<rparr>) =
              Some (dirDROP, [SendPacket reply 0]) \<and>
            SrcAddr (IPv4 reply) = SwapBytesUint32 0xCB007101 \<and>
            DstAddr (IPv4 reply) = SwapBytesUint32 0x08080808 \<and>
            Type (ICMP reply) = ICMPTypeEchoResponse \<and>
            Checksum reply = RecomputedICMP) \<and>
   handleICMP exParams 1000 True (exPublic [])
     (icmpPacket 0x08080808 0xCB007101 13 7) (Some \<lparr>addr = 0xCB007101, port = 7\<rparr>) =
     Some (dirSEND, []) \<and>
   (\<exists>reply. PublicToPrivateTranslation exParams 1000 True (exIdle [])
              (icmpPacket 0x08080808 0xCB007101 8 7) =
              Some \<lparr>disposition = dirDROP, packet = icmpPacket 0x08080808 0xCB007101 8 7,
                    pair = exIdle [], emitted = [SendPacket reply 0]\<rparr>)"
proof -
  have self: "SwapBytesUint32 (DstAddr (IPv4 (icmpPacket 0x08080808 0xCB007101 ty 7))) =
      Addr (Subnet (exPublic []))" for ty
    by (simp add: icmpPacket_def exPublic_def SwapBytesUint32_def)
  have nokni: "\<not> (KNIName (exPublic []) \<noteq> [] \<and>
                   (case Some \<lparr>addr = 0xCB007101, port = 7\<rparr> of
                      None \<Rightarrow> False
                    | Some k \<Rightarrow>
                        translationTable (exPublic []) ICMPNumber k = None \<or>
                        1000 - lastused (portmap (exPublic []) ICMPNumber (unat (port k)))
                          > connectionTimeout exParams))"
    by (simp add: exPublic_def)
  have f: "Type (ICMP (icmpPacket s d ty i)) = ty" "Code (ICMP (icmpPacket s d ty i)) = 0"
      "SrcAddr (IPv4 (icmpPacket s d ty i)) = SwapBytesUint32 s"
      "DstAddr (IPv4 (icmpPacket s d ty i)) = SwapBytesUint32 d"
      "Index (exPublic []) = 0" for s d ty i
    by (simp_all add: icmpPacket_def exPublic_def)
  note echo = handleICMP_echo [OF self nokni, where buf = True and ?ty1 = 8, THEN conjunct1]
  note other = handleICMP_echo [OF self nokni, where buf = True and ?ty1 = 13, THEN conjunct2,
      THEN conjunct1]
  from echo have a: "\<exists>reply. handleICMP exParams 1000 True (exPublic [])
              (icmpPacket 0x08080808 0xCB007101 8 7) (Some \<lparr>addr = 0xCB007101, port = 7\<rparr>) =
              Some (dirDROP, [SendPacket reply 0]) \<and>
            SrcAddr (IPv4 reply) = SwapBytesUint32 0xCB007101 \<and>
            DstAddr (IPv4 reply) = SwapBytesUint32 0x08080808 \<and>
            Type (ICMP reply) = ICMPTypeEchoResponse \<and>
            Checksum reply = RecomputedICMP"
    by (auto simp: f ICMPTypeEchoRequest_def)
  from other have b: "handleICMP exParams 1000 True (exPublic [])
     (icmpPacket 0x08080808 0xCB007101 13 7) (Some \<lparr>addr = 0xCB007101, port = 7\<rparr>) =
     Some (dirSEND, [])"
    by (simp add: f ICMPTypeEchoRequest_def)
  have pkt: "EtherType (icmpPacket 0x08080808 0xCB007101 8 7) = IPV4Number \<and>
      NextProtoID (IPv4 (icmpPacket 0x08080808 0xCB007101 8 7)) = ICMPNumber"
    "\<lparr>addr = SwapBytesUint32 (DstAddr (IPv4 (icmpPacket 0x08080808 0xCB007101 8 7))),
      port = SwapBytesUint16 (Identifier (ICMP (icmpPacket 0x08080808 0xCB007101 8 7)))\<rparr> =
     \<lparr>addr = 0xCB007101, port = 7\<rparr>"
    by (simp_all add: icmpPacket_def SwapBytesUint32_def SwapBytesUint16_def)
  have idle: "(exIdle [])\<lparr>PublicPort := exPublic []\<rparr> = exIdle []"
    by (simp add: exIdle_def)
  from a obtain reply where r: "handleICMP exParams 1000 True (exPublic [])
      (icmpPacket 0x08080808 0xCB007101 8 7) (Some \<lparr>addr = 0xCB007101, port = 7\<rparr>) =
      Some (dirDROP, [SendPacket reply 0])"
    by blast
  note whole = handleICMP_echo [OF self nokni, where buf = True and ?ty1 = 8
      and pp = "exIdle []" and ev = "[SendPacket reply 0]", THEN conjunct2, THEN conjunct2,
      rule_format, OF pkt(1), THEN conjunct1, unfolded pkt(2) idle, rule_format, OF r]
  then have c: "\<exists>reply. PublicToPrivateTranslation exParams 1000 True (exIdle [])
              (icmpPacket 0x08080808 0xCB007101 8 7) =
              Some \<lparr>disposition = dirDROP, packet = icmpPacket 0x08080808 0xCB007101 8 7,
                    pair = exIdle [], emitted = [SendPacket reply 0]\<rparr>"
    by blast
  from a b c show ?thesis by blast
qed

section \<open>Egress lookup miss\<close>

text \<open>
  Claim C8.  An egress packet whose key is not in the private port's table, when the
  allocator fails with PoolExhausted: the packet is dropped, unchanged, with the
  warning; the public port (its translation table and every \<open>portmap\<close> slot) is
  unchanged and so are the translation table and the \<open>portmap\<close> of the private
  port.  No flow is established.
\<close>

theorem egress_pool_exhausted:
  assumes ip: "EtherType pkt = IPV4Number"
    and l4: "ParseAllKnownL4ForIPv4 pkt = (pktTCP, pktUDP, pktICMP)"
    and key: "generateLookupKeyFromSrcAndHandleICMP cfg now buf (PrivatePort pp) pkt (IPv4 pkt)
                pktTCP pktUDP pktICMP = Some (Some k, d, ev)"
    and notself: "\<not> (KNIName (PrivatePort pp) \<noteq> [] \<and>
                     Addr (Subnet (PrivatePort pp)) = SwapBytesUint32 (DstAddr (IPv4 pkt)))"
    and miss: "translationTable (PrivatePort pp) (NextProtoID (IPv4 pkt)) k = None"
    and full: "allocNewPort cfg now pp (NextProtoID (IPv4 pkt)) = Inl PoolExhausted"
  shows "\<exists>r. PrivateToPublicTranslation cfg now buf pp pkt = Some r \<and>
             disposition r = dirDROP \<and>
             packet r = pkt \<and>
             emitted r = [Warning (FailedToAllocate PoolExhausted)] \<and>
             PublicPort (pair r) = PublicPort pp \<and>
             translationTable (PrivatePort (pair r)) = translationTable (PrivatePort pp) \<and>
             portmap (PrivatePort (pair r)) = portmap (PrivatePort pp)"
  by (simp add: egress_miss_full [OF ip l4 key notself miss full])

text \<open>
  Both ports of the range were used 10 seconds ago when 10.0.0.6 sends its first
  segment.
\<close>

theorem egress_pool_exhausted_witness:
  "\<exists>r. PrivateToPublicTranslation exParams 1000 True (exFull 990) exNew = Some r \<and>
       disposition r = dirDROP \<and>
       packet r = exNew \<and>
       emitted r = [Warning (FailedToAllocate PoolExhausted)] \<and>
       PublicPort (pair r) = PublicPort (exFull 990) \<and>
       translationTable (PrivatePort (pair r)) = translationTable (PrivatePort (exFull 990)) \<and>
       portmap (PrivatePort (pair r)) = portmap (PrivatePort (exFull 990))"
proof -
  have notself: "\<not> (KNIName (PrivatePort (exFull 990)) \<noteq> [] \<and>
      Addr (Subnet (PrivatePort (exFull 990))) = SwapBytesUint32 (DstAddr (IPv4 exNew)))"
    by (simp add: exFull_facts)
  have miss: "translationTable (PrivatePort (exFull 990)) (NextProtoID (IPv4 exNew))
      \<lparr>addr = 0x0A000006, port = 4000\<rparr> = None"
    by (simp add: exFull_facts)
  have full: "allocNewPort exParams 1000 (exFull 990) (NextProtoID (IPv4 exNew)) = Inl PoolExhausted"
    by (simp add: exNew_facts exFull_exhausted)
  show ?thesis
    by (rule egress_pool_exhausted [OF exNew_facts(1) exNew_facts(2) exNew_facts(6) notself miss full])
qed

text \<open>
  Claim C10.  An egress packet whose key is not in the private port's table: whenever
  the call returns, the private port's ARP table is the one before the call with the
  sender's address bound to the source MAC of the packet, and with a packet buffer to
  be had the call does return.  In particular, when the allocator fails the packet is
  dropped and the port pair is the one before the call with only that ARP entry
  added: the drop does not take the learned entry back.
\<close>

theorem egress_miss_learns_sender:
  assumes ip: "EtherType pkt = IPV4Number"
    and l4: "ParseAllKnownL4ForIPv4 pkt = (pktTCP, pktUDP, pktICMP)"
    and key: "generateLookupKeyFromSrcAndHandleICMP cfg now buf (PrivatePort pp) pkt (IPv4 pkt)
                pktTCP pktUDP pktICMP = Some (Some k, d, ev)"
    and notself: "\<not> (KNIName (PrivatePort pp) \<noteq> [] \<and>
                     Addr (Subnet (PrivatePort pp)) = SwapBytesUint32 (DstAddr (IPv4 pkt)))"
    and miss: "translationTable (PrivatePort pp) (NextProtoID (IPv4 pkt)) k = None"
  shows "(\<forall>r. PrivateToPublicTranslation cfg now buf pp pkt = Some r \<longrightarrow>
              arpTable (PrivatePort (pair r)) =
                (arpTable (PrivatePort pp))(addr k \<mapsto> SAddr (Ether pkt))) \<and>
         (buf \<longrightarrow> PrivateToPublicTranslation cfg now buf pp pkt \<noteq> None) \<and>
         (\<forall>err. allocNewPort cfg now pp (NextProtoID (IPv4 pkt)) = Inl err \<longrightarrow>
              PrivateToPublicTranslation cfg now buf pp pkt =
                Some \<lparr>disposition = dirDROP, packet = pkt,
                      pair = pp\<lparr>PrivatePort := (PrivatePort pp)
                               \<lparr>arpTable := (arpTable (PrivatePort pp))
                                              (addr k \<mapsto> SAddr (Ether pkt))\<rparr>\<rparr>,
                      emitted = [Warning (FailedToAllocate err)]\<rparr>)"
proof (intro conjI allI impI)
  fix r assume "PrivateToPublicTranslation cfg now buf pp pkt = Some r"
  then show "arpTable (PrivatePort (pair r)) =
                (arpTable (PrivatePort pp))(addr k \<mapsto> SAddr (Ether pkt))"
    unfolding egress_miss [OF ip l4 key notself miss] Let_def
    by (auto split: sum.splits dest!: arpTable_pri2pubRewrite arpTable_allocateNewEgressConnection)
next
  assume buf
  then show "PrivateToPublicTranslation cfg now buf pp pkt \<noteq> None"
    unfolding egress_miss [OF ip l4 key notself miss] Let_def
    using pri2pubRewrite_buf
    by (auto split: sum.splits)
next
  fix err assume "allocNewPort cfg now pp (NextProtoID (IPv4 pkt)) = Inl err"
  then show "PrivateToPublicTranslation cfg now buf pp pkt =
                Some \<lparr>disposition = dirDROP, packet = pkt,
                      pair = pp\<lparr>PrivatePort := (PrivatePort pp)
                               \<lparr>arpTable := (arpTable (PrivatePort pp))
                                              (addr k \<mapsto> SAddr (Ether pkt))\<rparr>\<rparr>,
                      emitted = [Warning (FailedToAllocate err)]\<rparr>"
    by (rule egress_miss_full [OF ip l4 key notself miss])
qed

text \<open>
  The same segment of 10.0.0.6 with all ports in use; and the first segment of
  10.0.0.5 with no connection yet, for which a port is found.
\<close>

theorem egress_miss_learns_sender_witness:
  "PrivateToPublicTranslation exParams 1000 True (exFull 990) exNew =
     Some \<lparr>disposition = dirDROP, packet = exNew,
           pair = (exFull 990)\<lparr>PrivatePort := (PrivatePort (exFull 990))
                    \<lparr>arpTable := [0x0A000005 \<mapsto> MAC 2 0 0 0 0 5, 0x0A000006 \<mapsto> MAC 2 0 0 0 0 7]\<rparr>\<rparr>,
           emitted = [Warning (FailedToAllocate PoolExhausted)]\<rparr> \<and>
   PrivateToPublicTranslation exParams 1000 True (exFull 990) exNew \<noteq> None \<and>
   (\<exists>r. PrivateToPublicTranslation exParams 1000 True (exIdle []) (exOut 0x02) = Some r \<and>
        arpTable (PrivatePort (pair r)) 0x0A000005 = Some (MAC 2 0 0 0 0 7))"
proof -
  have notself: "\<not> (KNIName (PrivatePort (exFull 990)) \<noteq> [] \<and>
      Addr (Subnet (PrivatePort (exFull 990))) = SwapBytesUint32 (DstAddr (IPv4 exNew)))"
    by (simp add: exFull_facts)
  have miss: "translationTable (PrivatePort (exFull 990)) (NextProtoID (IPv4 exNew))
      \<lparr>addr = 0x0A000006, port = 4000\<rparr> = None"
    by (simp add: exFull_facts)
  have full: "allocNewPort exParams 1000 (exFull 990) (NextProtoID (IPv4 exNew)) = Inl PoolExhausted"
    by (simp add: exNew_facts exFull_exhausted)
  note learn = egress_miss_learns_sender [OF exNew_facts(1) exNew_facts(2) exNew_facts(6)
      notself miss]
  from learn full have a: "PrivateToPublicTranslation exParams 1000 True (exFull 990) exNew =
     Some \<lparr>disposition = dirDROP, packet = exNew,
           pair = (exFull 990)\<lparr>PrivatePort := (PrivatePort (exFull 990))
                    \<lparr>arpTable := [0x0A000005 \<mapsto> MAC 2 0 0 0 0 5, 0x0A000006 \<mapsto> MAC 2 0 0 0 0 7]\<rparr>\<rparr>,
           emitted = [Warning (FailedToAllocate PoolExhausted)]\<rparr> \<and>
   PrivateToPublicTranslation exParams 1000 True (exFull 990) exNew \<noteq> None"
    by (simp add: exFull_facts exNew_facts)
  have notself': "\<not> (KNIName (PrivatePort (exIdle [])) \<noteq> [] \<and>
      Addr (Subnet (PrivatePort (exIdle []))) = SwapBytesUint32 (DstAddr (IPv4 (exOut 0x02))))"
    by (simp add: exIdle_def exPrivate_def)
  have miss': "translationTable (PrivatePort (exIdle [])) (NextProtoID (IPv4 (exOut 0x02))) exPriv
      = None"
    by (simp add: exIdle_def exPrivate_def)
  note first = egress_miss_learns_sender [where pkt = "exOut 0x02" and pp = "exIdle []"
      and cfg = exParams and now = 1000 and buf = True,
      OF exOut_facts(1) exOut_facts(2) exOut_facts(6) notself' miss']
  from first obtain r where
    r: "PrivateToPublicTranslation exParams 1000 True (exIdle []) (exOut 0x02) = Some r"
    by blast
  with first have "arpTable (PrivatePort (pair r)) =
      (arpTable (PrivatePort (exIdle [])))(addr exPriv \<mapsto> SAddr (Ether (exOut 0x02)))"
    by blast
  then have "arpTable (PrivatePort (pair r)) 0x0A000005 = Some (MAC 2 0 0 0 0 7)"
    by (simp add: exPriv_def exOut_def tcpPacket_def)
  with r a show ?thesis
    by blast
qed

section \<open>Egress traffic to the private port's own address\<close>

text \<open>
  Claim C9, as the code has it.  An egress IPv4 packet whose destination is the
  private port's own address, with a kernel interface configured: a TCP packet, a UDP
  packet, and an ICMP packet other than an echo request with code 0 is handed to the
  kernel interface, untranslated, with the port pair unchanged and nothing sent.  An
  ICMP echo request with code 0 is answered by the NAT itself (one echo reply with the
  addresses swapped, sent on the private port) and dropped.
\<close>

theorem egress_to_self_kni:
  assumes ip: "EtherType pkt = IPV4Number"
    and kni: "KNIName (PrivatePort pp) \<noteq> []"
    and self: "Addr (Subnet (PrivatePort pp)) = SwapBytesUint32 (DstAddr (IPv4 pkt))"
  shows "(NextProtoID (IPv4 pkt) = TCPNumber \<or> NextProtoID (IPv4 pkt) = UDPNumber \<or>
          NextProtoID (IPv4 pkt) = ICMPNumber \<and>
            (Type (ICMP pkt) \<noteq> ICMPTypeEchoRequest \<or> Code (ICMP pkt) \<noteq> 0) \<longrightarrow>
            PrivateToPublicTranslation cfg now buf pp pkt =
              Some \<lparr>disposition = dirKNI, packet = pkt, pair = pp, emitted = []\<rparr>) \<and>
         (NextProtoID (IPv4 pkt) = ICMPNumber \<and> Type (ICMP pkt) = ICMPTypeEchoRequest \<and>
          Code (ICMP pkt) = 0 \<and> buf \<longrightarrow>
            (\<exists>reply. PrivateToPublicTranslation cfg now buf pp pkt =
                       Some \<lparr>disposition = dirDROP, packet = pkt, pair = pp,
                             emitted = [SendPacket reply (Index (PrivatePort pp))]\<rparr> \<and>
                     Type (ICMP reply) = ICMPTypeEchoResponse \<and>
                     SrcAddr (IPv4 reply) = DstAddr (IPv4 pkt) \<and>
                     DstAddr (IPv4 reply) = SrcAddr (IPv4 pkt)))"
proof (intro conjI impI)
  assume a: "NextProtoID (IPv4 pkt) = TCPNumber \<or> NextProtoID (IPv4 pkt) = UDPNumber \<or>
          NextProtoID (IPv4 pkt) = ICMPNumber \<and>
            (Type (ICMP pkt) \<noteq> ICMPTypeEchoRequest \<or> Code (ICMP pkt) \<noteq> 0)"
  then consider (tcp) "NextProtoID (IPv4 pkt) = TCPNumber"
    | (udp) "NextProtoID (IPv4 pkt) = UDPNumber"
    | (icmp) "NextProtoID (IPv4 pkt) = ICMPNumber"
        "Type (ICMP pkt) \<noteq> ICMPTypeEchoRequest \<or> Code (ICMP pkt) \<noteq> 0"
    by blast
  then show "PrivateToPublicTranslation cfg now buf pp pkt =
              Some \<lparr>disposition = dirKNI, packet = pkt, pair = pp, emitted = []\<rparr>"
  proof cases
    case tcp
    with kni self show ?thesis
      by (simp add: PrivateToPublicTranslation_def parse_IPv4 [OF ip] ParseAllKnownL4ForIPv4_def
          generateLookupKeyFromSrcAndHandleICMP_def Let_def)
  next
    case udp
    with kni self show ?thesis
      by (simp add: PrivateToPublicTranslation_def parse_IPv4 [OF ip] ParseAllKnownL4ForIPv4_def
          generateLookupKeyFromSrcAndHandleICMP_def Let_def TCPNumber_def UDPNumber_def)
  next
    case icmp
    with kni self show ?thesis
      by (simp add: PrivateToPublicTranslation_def parse_IPv4 [OF ip] ParseAllKnownL4ForIPv4_def
          generateLookupKeyFromSrcAndHandleICMP_def Let_def TCPNumber_def UDPNumber_def
          ICMPNumber_def handleICMP_egress_other)
  qed
next
  assume b: "NextProtoID (IPv4 pkt) = ICMPNumber \<and> Type (ICMP pkt) = ICMPTypeEchoRequest \<and>
          Code (ICMP pkt) = 0 \<and> buf"
  let ?reply = "setIPv4ICMPChecksum
                  ((swapAddrIPv4 pkt)
                     \<lparr>ICMP := (ICMP (swapAddrIPv4 pkt))\<lparr>Type := ICMPTypeEchoResponse\<rparr>\<rparr>)"
  from b have buf: "buf = True" by simp
  from b self
  have "PrivateToPublicTranslation cfg now buf pp pkt =
          Some \<lparr>disposition = dirDROP, packet = pkt, pair = pp,
                emitted = [SendPacket ?reply (Index (PrivatePort pp))]\<rparr>"
    by (simp add: PrivateToPublicTranslation_def parse_IPv4 [OF ip] ParseAllKnownL4ForIPv4_def
          generateLookupKeyFromSrcAndHandleICMP_def Let_def TCPNumber_def UDPNumber_def
          ICMPNumber_def handleICMP_egress_echo buf)
  moreover have "Type (ICMP ?reply) = ICMPTypeEchoResponse \<and>
                     SrcAddr (IPv4 ?reply) = DstAddr (IPv4 pkt) \<and>
                     DstAddr (IPv4 ?reply) = SrcAddr (IPv4 pkt)"
    by (simp add: setIPv4ICMPChecksum_def swapAddrIPv4_def)
  ultimately show "\<exists>reply. PrivateToPublicTranslation cfg now buf pp pkt =
                       Some \<lparr>disposition = dirDROP, packet = pkt, pair = pp,
                             emitted = [SendPacket reply (Index (PrivatePort pp))]\<rparr> \<and>
                     Type (ICMP reply) = ICMPTypeEchoResponse \<and>
                     SrcAddr (IPv4 reply) = DstAddr (IPv4 pkt) \<and>
                     DstAddr (IPv4 reply) = SrcAddr (IPv4 pkt)"
    by blast
qed

text \<open>
  With the kernel interface kni0: a TCP segment to 10.0.0.1, an ICMP timestamp request
  to 10.0.0.1, and a ping of 10.0.0.1.
\<close>

theorem egress_to_self_kni_witness:
  "PrivateToPublicTranslation exParams 1000 True (exIdle ''kni0'') exSsh =
     Some \<lparr>disposition = dirKNI, packet = exSsh, pair = exIdle ''kni0'', emitted = []\<rparr> \<and>
   PrivateToPublicTranslation exParams 1000 True (exIdle ''kni0'') (exPing 13) =
     Some \<lparr>disposition = dirKNI, packet = exPing 13, pair = exIdle ''kni0'', emitted = []\<rparr> \<and>
   (\<exists>reply. PrivateToPublicTranslation exParams 1000 True (exIdle ''kni0'') (exPing 8) =
              Some \<lparr>disposition = dirDROP, packet = exPing 8, pair = exIdle ''kni0'',
                    emitted = [SendPacket reply 1]\<rparr> \<and>
            Type (ICMP reply) = ICMPTypeEchoResponse)"
proof -
  have self: "Addr (Subnet (PrivatePort (exIdle ''kni0''))) =
      SwapBytesUint32 (DstAddr (IPv4 exSsh))"
    "Addr (Subnet (PrivatePort (exIdle ''kni0''))) =
      SwapBytesUint32 (DstAddr (IPv4 (exPing ty)))" for ty
    by (simp_all add: exIdle_kni_facts exSsh_facts exPing_facts)
  note ssh = egress_to_self_kni [OF exSsh_facts(1) exIdle_kni_facts(1) self(1),
      where cfg = exParams and now = 1000 and buf = True, THEN conjunct1]
  note stamp = egress_to_self_kni [where pkt = "exPing 13" and cfg = exParams and now = 1000
      and buf = True, OF exPing_facts(1) exIdle_kni_facts(1) self(2), THEN conjunct1]
  note ping = egress_to_self_kni [where pkt = "exPing 8" and cfg = exParams and now = 1000
      and buf = True, OF exPing_facts(1) exIdle_kni_facts(1) self(2), THEN conjunct2]
  from ssh have a: "PrivateToPublicTranslation exParams 1000 True (exIdle ''kni0'') exSsh =
     Some \<lparr>disposition = dirKNI, packet = exSsh, pair = exIdle ''kni0'', emitted = []\<rparr>"
    by (simp add: exSsh_facts)
  from stamp have b: "PrivateToPublicTranslation exParams 1000 True (exIdle ''kni0'') (exPing 13) =
     Some \<lparr>disposition = dirKNI, packet = exPing 13, pair = exIdle ''kni0'', emitted = []\<rparr>"
    by (simp add: exPing_facts ICMPTypeEchoRequest_def)
  from ping have c: "\<exists>reply. PrivateToPublicTranslation exParams 1000 True (exIdle ''kni0'') (exPing 8) =
              Some \<lparr>disposition = dirDROP, packet = exPing 8, pair = exIdle ''kni0'',
                    emitted = [SendPacket reply 1]\<rparr> \<and>
            Type (ICMP reply) = ICMPTypeEchoResponse"
    by (auto simp: exPing_facts ICMPTypeEchoRequest_def exIdle_kni_facts)
  from a b c show ?thesis by blast
qed

text \<open>
  Claim C9 as stated fails for ICMP: the key is made, and with it \<open>handleICMP\<close> is
  run, before the destination is compared with the port's address.  The ping of
  10.0.0.1 is not handed to kni0; the reply \<open>exPong\<close> is sent on the private port
  and the request is dropped.
\<close>

theorem egress_echo_to_self_answered_locally:
  "KNIName (PrivatePort (exIdle ''kni0'')) \<noteq> [] \<and>
   Addr (Subnet (PrivatePort (exIdle ''kni0''))) = SwapBytesUint32 (DstAddr (IPv4 (exPing 8))) \<and>
   NextProtoID (IPv4 (exPing 8)) = ICMPNumber \<and>
   PrivateToPublicTranslation exParams 1000 True (exIdle ''kni0'') (exPing 8) =
     Some \<lparr>disposition = dirDROP, packet = exPing 8, pair = exIdle ''kni0'',
           emitted = [SendPacket exPong 1]\<rparr>"
proof -
  have reply: "setIPv4ICMPChecksum
                 ((swapAddrIPv4 (exPing 8))
                    \<lparr>ICMP := (ICMP (swapAddrIPv4 (exPing 8)))\<lparr>Type := ICMPTypeEchoResponse\<rparr>\<rparr>)
               = exPong"
    by (simp add: setIPv4ICMPChecksum_def swapAddrIPv4_def exPing_def exPong_def icmpPacket_def
        NewPacket_def)
  have echo: "handleICMP exParams 1000 True (PrivatePort (exIdle ''kni0'')) (exPing 8) None =
      Some (dirDROP, [SendPacket exPong 1])"
    using handleICMP_egress_echo [where pkt = "exPing 8" and prt = "PrivatePort (exIdle ''kni0'')"
        and cfg = exParams and now = 1000]
    by (simp add: exPing_facts exIdle_kni_facts ICMPTypeEchoRequest_def reply)
  have run: "PrivateToPublicTranslation exParams 1000 True (exIdle ''kni0'') (exPing 8) =
     Some \<lparr>disposition = dirDROP, packet = exPing 8, pair = exIdle ''kni0'',
           emitted = [SendPacket exPong 1]\<rparr>"
    by (simp add: PrivateToPublicTranslation_def parse_IPv4 exPing_facts
        ParseAllKnownL4ForIPv4_def generateLookupKeyFromSrcAndHandleICMP_def echo
        TCPNumber_def UDPNumber_def ICMPNumber_def)
  show ?thesis
    by (simp add: run exIdle_kni_facts exPing_facts)
qed

end
